theory Spec2Isabelle
  imports Complex_Main "HOL-Library.Log_Nat"
begin

section \<open>JavaScript numbers and arrays\<close>

text \<open>
  The source computes with JavaScript numbers, the IEEE 754 doubles. A number is modelled
  as the real it denotes. In the consensus of \<open>calculateFinalResult\<close> and in the volume
  ratio of \<open>analyzeVolume\<close> (with \<open>sma\<close>) the rounding of the doubles decides
  comparisons at their thresholds, and there every operation is followed by the rounding
  to the nearest double, \<open>dbl\<close>; the other functions are modelled with the arithmetic of
  the reals. The non-finite values (\<open>Infinity\<close>, \<open>NaN\<close>) and \<open>undefined\<close> are modelled
  by \<open>None\<close>, or by a constructor of their own, where the code can produce them.
\<close>

type_synonym number = real

subsection \<open>Rounding to the nearest double\<close>

text \<open>The nearest integer, a tie going to the even one.\<close>

definition roundEven :: "real \<Rightarrow> int" where
  "roundEven x =
     (let f = \<lfloor>x\<rfloor>; d = x - of_int f
      in if d < 1 / 2 then f else if d > 1 / 2 then f + 1 else if even f then f else f + 1)"

text \<open>
  The binary exponent of a positive real: \<open>2 ^ e \<le> x < 2 ^ (e + 1)\<close>, from the number
  of bits of the integer part of \<open>x\<close>, or of \<open>1 / x\<close> below one.
\<close>

definition binade :: "real \<Rightarrow> int" where
  "binade x = (if 1 \<le> x then bitlen \<lfloor>x\<rfloor> - 1 else - bitlen (\<lceil>1 / x\<rceil> - 1))"

text \<open>
  The double nearest to a positive real (round to nearest, ties to even): a significand
  of 53 bits, that is a multiple of \<open>2 ^ (e - 52)\<close>, the exponent \<open>e\<close> being at least
  \<open>-1022\<close> (below, the doubles are the multiples of \<open>2 ^ -1074\<close>).
\<close>

definition dblMag :: "real \<Rightarrow> real" where
  "dblMag x =
     (let q = max (binade x) (- 1022) - 52
      in if 0 \<le> q then of_int (roundEven (x / 2 ^ nat q)) * 2 ^ nat q
         else of_int (roundEven (x * 2 ^ nat (- q))) / 2 ^ nat (- q))"

text \<open>
  The rounding of a real to the nearest double. A result of magnitude \<open>2 ^ 1024\<close> or
  more is \<open>Infinity\<close> in the source; the model covers the numbers below that. The sign
  of a zero is not modelled.
\<close>

definition dbl :: "real \<Rightarrow> number" where
  "dbl x = (if x = 0 then 0 else if x < 0 then - dblMag (- x) else dblMag x)"

text \<open>The operators \<open>+\<close>, \<open>-\<close>, \<open>*\<close> and \<open>/\<close> on doubles (a divisor that is not zero).\<close>

definition dadd :: "number \<Rightarrow> number \<Rightarrow> number" where
  "dadd x y = dbl (x + y)"

definition dsub :: "number \<Rightarrow> number \<Rightarrow> number" where
  "dsub x y = dbl (x - y)"

definition dmul :: "number \<Rightarrow> number \<Rightarrow> number" where
  "dmul x y = dbl (x * y)"

definition ddiv :: "number \<Rightarrow> number \<Rightarrow> number" where
  "ddiv x y = dbl (x / y)"

text \<open>
  A quotient whose divisor may be zero, or whose operands may be \<open>undefined\<close>: a number,
  an infinity or \<open>NaN\<close>.
\<close>

datatype quotient = Finite number | PosInfinity | NegInfinity | NotANumber

definition js_div :: "number option \<Rightarrow> number option \<Rightarrow> quotient" where
  "js_div a b =
     (case (a, b) of
        (Some x, Some y) \<Rightarrow>
          if y = 0 then (if x > 0 then PosInfinity else if x < 0 then NegInfinity else NotANumber)
          else Finite (ddiv x y)
      | _ \<Rightarrow> NotANumber)"

text \<open>\<open>q > c\<close> and \<open>q < c\<close> for a quotient and a number: false for \<open>NaN\<close>.\<close>

definition quotient_gt :: "quotient \<Rightarrow> number \<Rightarrow> bool" where
  "quotient_gt q c = (case q of Finite r \<Rightarrow> r > c | PosInfinity \<Rightarrow> True | _ \<Rightarrow> False)"

definition quotient_lt :: "quotient \<Rightarrow> number \<Rightarrow> bool" where
  "quotient_lt q c = (case q of Finite r \<Rightarrow> r < c | NegInfinity \<Rightarrow> True | _ \<Rightarrow> False)"

subsection \<open>Rounding to integers and decimals, and arrays\<close>

text \<open>\<open>Math.round\<close>: the nearest integer, a tie going up.\<close>

definition js_round :: "number \<Rightarrow> number" where
  "js_round x = of_int \<lfloor>x + 1 / 2\<rfloor>"

text \<open>
  \<open>parseFloat(x.toFixed(n))\<close>: the decimal with \<open>n\<close> fraction digits nearest to \<open>x\<close>,
  a tie going away from zero.
\<close>

definition toFixed :: "nat \<Rightarrow> number \<Rightarrow> number" where
  "toFixed n x =
     (if x < 0 then - (of_int \<lfloor>(- x) * 10 ^ n + 1 / 2\<rfloor> / 10 ^ n)
      else of_int \<lfloor>x * 10 ^ n + 1 / 2\<rfloor> / 10 ^ n)"

text \<open>\<open>xs[i]\<close>: reading outside the array gives \<open>undefined\<close>.\<close>

definition js_at :: "'a list \<Rightarrow> int \<Rightarrow> 'a option" where
  "js_at xs i = (if 0 \<le> i \<and> i < int (length xs) then Some (xs ! nat i) else None)"

text \<open>
  Comparisons in which an operand is \<open>undefined\<close> are false, whichever the operator.
\<close>

definition js_lt :: "number option \<Rightarrow> number option \<Rightarrow> bool" where
  "js_lt a b = (case (a, b) of (Some x, Some y) \<Rightarrow> x < y | _ \<Rightarrow> False)"

definition js_le :: "number option \<Rightarrow> number option \<Rightarrow> bool" where
  "js_le a b = (case (a, b) of (Some x, Some y) \<Rightarrow> x \<le> y | _ \<Rightarrow> False)"

definition js_gt :: "number option \<Rightarrow> number option \<Rightarrow> bool" where
  "js_gt a b = js_lt b a"

definition js_ge :: "number option \<Rightarrow> number option \<Rightarrow> bool" where
  "js_ge a b = js_le b a"

section \<open>Fibonacci levels\<close>

subsection \<open>analysisEngine.js: calculateFibonacciRetracementLevels\<close>

record fibLevel =
  level_name :: string
  level_price :: number

definition calculateFibonacciRetracementLevels :: "number \<Rightarrow> number \<Rightarrow> bool \<Rightarrow> fibLevel list" where
  "calculateFibonacciRetracementLevels highestPoint lowestPoint isUptrend =
     (let range = highestPoint - lowestPoint in
      [ \<lparr>level_name = ''0'', level_price = (if isUptrend then highestPoint else lowestPoint)\<rparr>,
        \<lparr>level_name = ''0.236'',
         level_price = (if isUptrend then highestPoint - range * (236 / 1000)
                        else lowestPoint + range * (236 / 1000))\<rparr>,
        \<lparr>level_name = ''0.382'',
         level_price = (if isUptrend then highestPoint - range * (382 / 1000)
                        else lowestPoint + range * (382 / 1000))\<rparr>,
        \<lparr>level_name = ''0.5'',
         level_price = (if isUptrend then highestPoint - range * (5 / 10)
                        else lowestPoint + range * (5 / 10))\<rparr>,
        \<lparr>level_name = ''0.618'',
         level_price = (if isUptrend then highestPoint - range * (618 / 1000)
                        else lowestPoint + range * (618 / 1000))\<rparr>,
        \<lparr>level_name = ''0.786'',
         level_price = (if isUptrend then highestPoint - range * (786 / 1000)
                        else lowestPoint + range * (786 / 1000))\<rparr>,
        \<lparr>level_name = ''1'', level_price = (if isUptrend then lowestPoint else highestPoint)\<rparr> ])"

text \<open>The price of the level with a given name, as \<open>fibLevels.find\<close> reads it.\<close>

definition levelPrice :: "fibLevel list \<Rightarrow> string \<Rightarrow> number option" where
  "levelPrice ls n = map_option level_price (find (\<lambda>l. level_name l = n) ls)"

subsection \<open>fibonacciCalculator.js: calculateFibonacciLevels\<close>

record fibResult =
  support :: number
  resistance :: number
  levels :: "(string \<times> number) list"
  extensions :: "(string \<times> number) list"
  trend :: string

text \<open>
  The object literal \<open>levels\<close>. \<open>Object.entries\<close> lists the integer-like keys \<open>0\<close> and
  \<open>1\<close> first, in ascending order, and the other keys in the order of the literal; the
  association list is in that order.
\<close>

definition fibLevelEntries :: "number \<Rightarrow> number \<Rightarrow> bool \<Rightarrow> (string \<times> number) list" where
  "fibLevelEntries highestPrice lowestPrice isUptrend =
     (let range = highestPrice - lowestPrice in
      [ (''0'', if isUptrend then highestPrice else lowestPrice),
        (''1'', if isUptrend then lowestPrice else highestPrice),
        (''0.236'', if isUptrend then highestPrice - range * (236 / 1000)
                    else lowestPrice + range * (236 / 1000)),
        (''0.382'', if isUptrend then highestPrice - range * (382 / 1000)
                    else lowestPrice + range * (382 / 1000)),
        (''0.5'', if isUptrend then highestPrice - range * (5 / 10)
                  else lowestPrice + range * (5 / 10)),
        (''0.618'', if isUptrend then highestPrice - range * (618 / 1000)
                    else lowestPrice + range * (618 / 1000)),
        (''0.786'', if isUptrend then highestPrice - range * (786 / 1000)
                    else lowestPrice + range * (786 / 1000)) ])"

definition fibExtensionEntries :: "number \<Rightarrow> number \<Rightarrow> bool \<Rightarrow> (string \<times> number) list" where
  "fibExtensionEntries highestPrice lowestPrice isUptrend =
     (let range = highestPrice - lowestPrice in
      [ (''1.272'', if isUptrend then highestPrice + range * (272 / 1000)
                    else lowestPrice - range * (272 / 1000)),
        (''1.618'', if isUptrend then highestPrice + range * (618 / 1000)
                    else lowestPrice - range * (618 / 1000)),
        (''2.618'', if isUptrend then highestPrice + range * (1618 / 1000)
                    else lowestPrice - range * (1618 / 1000)) ])"

text \<open>
  The state of the two scanning loops: the support and the resistance found so far, each
  with its distance to the current price.
\<close>

record scan =
  scan_support :: number
  closestSupportDistance :: number
  scan_resistance :: number
  closestResistanceDistance :: number

text \<open>One iteration of either loop, for the entry with value \<open>price\<close>.\<close>

definition scanStep :: "number \<Rightarrow> scan \<Rightarrow> number \<Rightarrow> scan" where
  "scanStep currentPrice s price =
     (let distance = \<bar>currentPrice - price\<bar> in
      if price < currentPrice \<and> distance < closestSupportDistance s
      then s\<lparr>scan_support := price, closestSupportDistance := distance\<rparr>
      else if price > currentPrice \<and> distance < closestResistanceDistance s
      then s\<lparr>scan_resistance := price, closestResistanceDistance := distance\<rparr>
      else s)"

text \<open>
  \<open>Math.max\<close> and \<open>Math.min\<close> of an empty argument list are \<open>-Infinity\<close> and
  \<open>Infinity\<close>, and every field of the result is then non-finite or \<open>NaN\<close>: the model
  returns \<open>None\<close> for the empty price list.
\<close>

definition calculateFibonacciLevels :: "number list \<Rightarrow> bool \<Rightarrow> fibResult option" where
  "calculateFibonacciLevels prices isUptrend =
     (if prices = [] then None
      else
        let highestPrice = Max (set prices);
            lowestPrice = Min (set prices);
            lvls = fibLevelEntries highestPrice lowestPrice isUptrend;
            exts = fibExtensionEntries highestPrice lowestPrice isUptrend;
            currentPrice = last prices;
            s0 = \<lparr>scan_support = lowestPrice,
                  closestSupportDistance = \<bar>currentPrice - lowestPrice\<bar>,
                  scan_resistance = highestPrice,
                  closestResistanceDistance = \<bar>highestPrice - currentPrice\<bar>\<rparr>;
            s1 = foldl (scanStep currentPrice) s0 (map snd lvls);
            s2 = foldl (scanStep currentPrice) s1 (map snd exts)
        in Some \<lparr>support = scan_support s2, resistance = scan_resistance s2,
                  levels = lvls, extensions = exts,
                  trend = (if isUptrend then ''up'' else ''down'')\<rparr>)"

section \<open>Technical indicators (services/technicalIndicators.js)\<close>

text \<open>
  \<open>sma(data, period)\<close>: the running sum of the last \<open>period\<close> values, divided by
  \<open>period\<close>, every sum and quotient rounded to a double. The loop reads
  \<open>data[i - period]\<close> and \<open>data[i]\<close> for \<open>period \<le> i < data.length\<close> only, so every
  read is inside the array. The analyzers call it with a positive period.
\<close>

definition sma :: "number list \<Rightarrow> nat \<Rightarrow> number list" where
  "sma data period =
     (if length data < period then []
      else
        let sum0 = foldl (\<lambda>sum i. dadd sum (data ! i)) 0 [0..<period];
            step = (\<lambda>(sum, result) i.
                      let sum' = dadd (dsub sum (data ! (i - period))) (data ! i)
                      in (sum', result @ [ddiv sum' (real period)]))
        in snd (foldl step (sum0, [ddiv sum0 (real period)]) [period..<length data]))"

text \<open>
  \<open>rsi(data, period)\<close>. \<open>gains\<close> and \<open>losses\<close> have \<open>data.length - 1\<close> entries, and the
  guard \<open>data.length < period + 1\<close> keeps every read inside them. The only caller passes
  the period 14.
\<close>

definition priceChanges :: "number list \<Rightarrow> number list" where
  "priceChanges data = map (\<lambda>i. data ! i - data ! (i - 1)) [1..<length data]"

definition rsiOf :: "number \<Rightarrow> number \<Rightarrow> number" where
  "rsiOf avgGain avgLoss =
     (let rs = avgGain / (if avgLoss = 0 then 1 / 1000 else avgLoss)
      in 100 - 100 / (1 + rs))"

definition rsi :: "number list \<Rightarrow> nat \<Rightarrow> number list" where
  "rsi data period =
     (if length data < period + 1 then []
      else
        let gains = map (\<lambda>change. if change > 0 then change else 0) (priceChanges data);
            losses = map (\<lambda>change. if change < 0 then \<bar>change\<bar> else 0) (priceChanges data);
            avgGain0 = foldl (\<lambda>a i. a + gains ! i) 0 [0..<period] / real period;
            avgLoss0 = foldl (\<lambda>a i. a + losses ! i) 0 [0..<period] / real period;
            step = (\<lambda>(avgGain, avgLoss, result) i.
                      let avgGain' = (avgGain * (real period - 1) + gains ! i) / real period;
                          avgLoss' = (avgLoss * (real period - 1) + losses ! i) / real period
                      in (avgGain', avgLoss', result @ [rsiOf avgGain' avgLoss']))
        in snd (snd (foldl step (avgGain0, avgLoss0, [rsiOf avgGain0 avgLoss0])
                       [period..<length gains])))"

section \<open>Signal analyzers (analysisEngine.js)\<close>

datatype direction = BUY | SELL | NEUTRAL

record signal =
  sig_name :: string
  sig_direction :: direction
  strength :: number

text \<open>
  What the consensus reads of an analyzer's result. The snapshot \<open>values\<close> (and the
  sentiment analyzer's \<open>sentiment\<close> and \<open>recentNews\<close>) is reported to the user only. The
  candlestick analyzer stores its signal list under the key \<open>patterns\<close>.
\<close>

record analyzerResult =
  res_direction :: direction
  res_confidence :: number
  res_signals :: "signal list"

text \<open>
  The block "Calculate direction and confidence based on signals", which ends each of the
  nine signal analyzers; they differ in the constant passed to \<open>Math.min\<close> only.
\<close>

definition signalVerdict :: "number \<Rightarrow> signal list \<Rightarrow> direction \<times> number" where
  "signalVerdict cap signals =
     (if length signals > 0 then
        let buySignals = filter (\<lambda>s. sig_direction s = BUY) signals;
            sellSignals = filter (\<lambda>s. sig_direction s = SELL) signals;
            buyStrength = foldl (\<lambda>sum s. sum + strength s) 0 buySignals;
            sellStrength = foldl (\<lambda>sum s. sum + strength s) 0 sellSignals
        in if buyStrength > sellStrength
           then (BUY, min cap (50 + js_round ((buyStrength - sellStrength) / 2)))
           else if sellStrength > buyStrength
           then (SELL, min cap (50 + js_round ((sellStrength - buyStrength) / 2)))
           else (NEUTRAL, 50)
      else (NEUTRAL, 50))"

datatype analyzer =
    MovingAverages | RSI | MACD | BollingerBands | SupportResistance
  | Volume | CandlestickPatterns | Fibonacci | TrendStrength

text \<open>The closing block of each signal analyzer, with the constant its source has.\<close>

fun analyzerVerdict :: "analyzer \<Rightarrow> signal list \<Rightarrow> direction \<times> number" where
  "analyzerVerdict MovingAverages signals = signalVerdict 90 signals"
| "analyzerVerdict RSI signals = signalVerdict 90 signals"
| "analyzerVerdict MACD signals = signalVerdict 90 signals"
| "analyzerVerdict BollingerBands signals = signalVerdict 90 signals"
| "analyzerVerdict SupportResistance signals = signalVerdict 90 signals"
| "analyzerVerdict Volume signals = signalVerdict 85 signals"
| "analyzerVerdict CandlestickPatterns signals = signalVerdict 85 signals"
| "analyzerVerdict Fibonacci signals = signalVerdict 85 signals"
| "analyzerVerdict TrendStrength signals = signalVerdict 90 signals"

definition analyzerReturn :: "analyzer \<Rightarrow> signal list \<Rightarrow> analyzerResult" where
  "analyzerReturn a signals =
     \<lparr>res_direction = fst (analyzerVerdict a signals),
      res_confidence = snd (analyzerVerdict a signals),
      res_signals = signals\<rparr>"

text \<open>\<open>if (c) signals.push(x)\<close>.\<close>

definition pushIf :: "bool \<Rightarrow> 'a \<Rightarrow> 'a list" where
  "pushIf c x = (if c then [x] else [])"

subsection \<open>analyzeRSI\<close>

definition analyzeRSI :: "number list \<Rightarrow> analyzerResult" where
  "analyzeRSI closes =
     (let rsiValues = rsi closes 14;
          n = int (length rsiValues);
          m = int (length closes);
          currentRSI = js_at rsiValues (n - 1);
          oversold = (case currentRSI of
              Some r \<Rightarrow> pushIf (r < 30)
                \<lparr>sig_name = ''RSI Oversold'', sig_direction = BUY,
                 strength = 70 + (30 - r) * 2\<rparr>
            | None \<Rightarrow> []);
          overbought = (case currentRSI of
              Some r \<Rightarrow> pushIf (r > 70)
                \<lparr>sig_name = ''RSI Overbought'', sig_direction = SELL,
                 strength = 70 + (r - 70) * 2\<rparr>
            | None \<Rightarrow> []);
          crossAbove = pushIf (js_gt currentRSI (Some 30) \<and> js_le (js_at rsiValues (n - 2)) (Some 30))
              \<lparr>sig_name = ''RSI Crosses Above 30'', sig_direction = BUY, strength = 65\<rparr>;
          crossBelow = pushIf (js_lt currentRSI (Some 70) \<and> js_ge (js_at rsiValues (n - 2)) (Some 70))
              \<lparr>sig_name = ''RSI Crosses Below 70'', sig_direction = SELL, strength = 65\<rparr>;
          priceUp = js_gt (js_at closes (m - 1)) (js_at closes (m - 5));
          rsiUp = js_gt (js_at rsiValues (n - 1)) (js_at rsiValues (n - 5));
          divergence =
            (if priceUp \<and> \<not> rsiUp
             then [\<lparr>sig_name = ''Bearish RSI Divergence'', sig_direction = SELL, strength = 75\<rparr>]
             else if \<not> priceUp \<and> rsiUp
             then [\<lparr>sig_name = ''Bullish RSI Divergence'', sig_direction = BUY, strength = 75\<rparr>]
             else [])
      in analyzerReturn RSI (oversold @ overbought @ crossAbove @ crossBelow @ divergence))"

subsection \<open>analyzeVolume\<close>

datatype priceDirection = Up | Down | Flat

text \<open>
  \<open>volumeRatio = currentVolume / averageVolume\<close> is \<open>NaN\<close> when either is \<open>undefined\<close>
  (fewer than 20 volumes) or both are zero, and every comparison with it is then false;
  it is infinite when only the average is zero. For the ratio \<open>+Infinity\<close> the strength
  of the high-volume signals is \<open>60 + Math.min(20, Infinity)\<close>, that is 80. The
  literal \<open>0.7\<close> is the double nearest to 7/10; \<open>1.5\<close>, \<open>10\<close> and \<open>2\<close> are doubles.
\<close>

definition analyzeVolume :: "number list \<Rightarrow> number list \<Rightarrow> analyzerResult" where
  "analyzeVolume closes volumes =
     (let volumeSMA = sma volumes 20;
          n = int (length volumes);
          m = int (length closes);
          currentVolume = js_at volumes (n - 1);
          averageVolume = js_at volumeSMA (int (length volumeSMA) - 1);
          volumeRatio = js_div currentVolume averageVolume;
          priceChange = (case (js_at closes (m - 1), js_at closes (m - 2)) of
              (Some c1, Some c2) \<Rightarrow> Some (dsub c1 c2) | _ \<Rightarrow> None);
          priceDirection =
            (if js_gt priceChange (Some 0) then Up
             else if js_lt priceChange (Some 0) then Down else Flat);
          highStrength = (case volumeRatio of
              Finite v \<Rightarrow> 60 + min 20 (js_round (dmul (dsub v (15 / 10)) 10))
            | _ \<Rightarrow> 80);
          increase = pushIf (priceDirection = Up \<and> quotient_gt volumeRatio (15 / 10))
              \<lparr>sig_name = ''High Volume Price Increase'', sig_direction = BUY,
               strength = highStrength\<rparr>;
          decrease = pushIf (priceDirection = Down \<and> quotient_gt volumeRatio (15 / 10))
              \<lparr>sig_name = ''High Volume Price Decrease'', sig_direction = SELL,
               strength = highStrength\<rparr>;
          lowVolume = pushIf (quotient_lt volumeRatio (dbl (7 / 10)) \<and> priceDirection \<noteq> Flat)
              \<lparr>sig_name = ''Low Volume Price Movement'',
               sig_direction = (if priceDirection = Up then SELL else BUY), strength = 55\<rparr>;
          isVolumePeak =
            (js_gt currentVolume (map_option (\<lambda>v. dmul v 2) (js_at volumes (n - 2))) \<and>
             js_gt currentVolume (map_option (\<lambda>v. dmul v 2) (js_at volumes (n - 3))));
          climax = pushIf isVolumePeak
              \<lparr>sig_name = ''Volume Climax'',
               sig_direction = (if priceDirection = Up then SELL else BUY), strength = 70\<rparr>
      in analyzerReturn Volume (increase @ decrease @ lowVolume @ climax))"

subsection \<open>analyzeMarketSentiment\<close>

record newsItem =
  news_source :: string
  news_headline :: string
  news_sentiment :: number

text \<open>
  The news collaborator's answer is an argument: \<open>None\<close> when \<open>getMarketNews\<close> throws or
  returns nothing (both return the same neutral result), the items otherwise.
\<close>

definition analyzeMarketSentiment :: "newsItem list option \<Rightarrow> analyzerResult" where
  "analyzeMarketSentiment news =
     (case news of
        None \<Rightarrow> \<lparr>res_direction = NEUTRAL, res_confidence = 50, res_signals = []\<rparr>
      | Some newsItems \<Rightarrow>
          if length newsItems = 0
          then \<lparr>res_direction = NEUTRAL, res_confidence = 50, res_signals = []\<rparr>
          else
            let sentimentScore = foldl (\<lambda>score item. score + news_sentiment item) 0 newsItems;
                avgSentiment = sentimentScore / real (length newsItems)
            in if avgSentiment > 2 / 10 then
                 let confidence = 50 + min 30 (js_round (avgSentiment * 100))
                 in \<lparr>res_direction = BUY, res_confidence = confidence,
                     res_signals = [\<lparr>sig_name = ''Positive Market Sentiment'',
                                     sig_direction = BUY, strength = confidence\<rparr>]\<rparr>
               else if avgSentiment < - (2 / 10) then
                 let confidence = 50 + min 30 (js_round (\<bar>avgSentiment\<bar> * 100))
                 in \<lparr>res_direction = SELL, res_confidence = confidence,
                     res_signals = [\<lparr>sig_name = ''Negative Market Sentiment'',
                                     sig_direction = SELL, strength = confidence\<rparr>]\<rparr>
               else \<lparr>res_direction = NEUTRAL, res_confidence = 50, res_signals = []\<rparr>)"

section \<open>Consensus engine (analysisEngine.js)\<close>

record analysis =
  an_name :: string
  an_result :: analyzerResult
  an_weight :: number

record dangerSignal =
  danger_name :: string
  importance :: number

text \<open>The accumulators of the loop of \<open>calculateFinalResult\<close>.\<close>

record tally =
  totalBuyWeight :: number
  totalSellWeight :: number
  totalWeight :: number
  dangerSignals :: "dangerSignal list"

text \<open>\<open>signals.some(s => s.name === nm && s.strength >= least)\<close>.\<close>

definition someSignal :: "signal list \<Rightarrow> string \<Rightarrow> number \<Rightarrow> bool" where
  "someSignal signals nm least = list_ex (\<lambda>s. sig_name s = nm \<and> strength s \<ge> least) signals"

text \<open>The five checks for danger signals that the loop makes on one analysis.\<close>

definition dangerSignalsOf :: "analysis \<Rightarrow> dangerSignal list" where
  "dangerSignalsOf a =
     (let result = an_result a in
      pushIf (an_name a = ''Bollinger Bands'' \<and>
              someSignal (res_signals result) ''Price Above Upper Band'' 70)
        \<lparr>danger_name = ''Extreme Overbought on Bollinger Bands'', importance = 8\<rparr> @
      pushIf (an_name a = ''Bollinger Bands'' \<and>
              someSignal (res_signals result) ''Price Below Lower Band'' 70)
        \<lparr>danger_name = ''Extreme Oversold on Bollinger Bands'', importance = 8\<rparr> @
      pushIf (an_name a = ''RSI'' \<and> someSignal (res_signals result) ''RSI Overbought'' 75)
        \<lparr>danger_name = ''Extreme Overbought on RSI'', importance = 7\<rparr> @
      pushIf (an_name a = ''RSI'' \<and> someSignal (res_signals result) ''RSI Oversold'' 75)
        \<lparr>danger_name = ''Extreme Oversold on RSI'', importance = 7\<rparr> @
      pushIf (an_name a = ''Volume'' \<and> someSignal (res_signals result) ''Volume Climax'' 70)
        \<lparr>danger_name = ''Volume Climax Detected'', importance = 9\<rparr>)"

text \<open>One iteration of the loop; the sums and the products are those of the doubles.\<close>

definition tallyStep :: "tally \<Rightarrow> analysis \<Rightarrow> tally" where
  "tallyStep t a =
     (let result = an_result a;
          weight = an_weight a;
          t1 = t\<lparr>totalWeight := dadd (totalWeight t) weight\<rparr>;
          t2 = (if res_direction result = BUY
                then t1\<lparr>totalBuyWeight :=
                          dadd (totalBuyWeight t1) (dmul weight (ddiv (res_confidence result) 100))\<rparr>
                else if res_direction result = SELL
                then t1\<lparr>totalSellWeight :=
                          dadd (totalSellWeight t1) (dmul weight (ddiv (res_confidence result) 100))\<rparr>
                else t1)
      in t2\<lparr>dangerSignals := dangerSignals t2 @ dangerSignalsOf a\<rparr>)"

record finalResult =
  fin_direction :: direction
  fin_confidence :: number
  fin_dangerSignals :: "dangerSignal list"

text \<open>
  The scores, the threshold \<open>sellScore + 0.1\<close> and the product \<open>buyScore * 100\<close> are
  doubles: each is the rounded result of its operation, and the literal \<open>0.1\<close> is the
  double nearest to 1/10. \<open>Math.round\<close> of a double is exact.

  When the weights sum to zero the two scores are \<open>NaN\<close> or infinite: a score is
  \<open>+Infinity\<close> for a positive numerator, \<open>-Infinity\<close> for a negative one and \<open>NaN\<close> for
  zero. A comparison then holds only between \<open>+Infinity\<close> and \<open>-Infinity\<close>, and the
  rounded infinite score is clamped to 100. The first branch below writes this out; the
  caller in this repository always passes weights that sum to 100.
\<close>

definition calculateFinalResult :: "analysis list \<Rightarrow> finalResult" where
  "calculateFinalResult analyses =
     (let t = foldl tallyStep
                \<lparr>totalBuyWeight = 0, totalSellWeight = 0, totalWeight = 0, dangerSignals = []\<rparr>
                analyses
      in if totalWeight t = 0 then
           (if totalBuyWeight t > 0 \<and> totalSellWeight t < 0
            then \<lparr>fin_direction = BUY, fin_confidence = 100, fin_dangerSignals = dangerSignals t\<rparr>
            else if totalSellWeight t > 0 \<and> totalBuyWeight t < 0
            then \<lparr>fin_direction = SELL, fin_confidence = 100, fin_dangerSignals = dangerSignals t\<rparr>
            else \<lparr>fin_direction = NEUTRAL, fin_confidence = 50, fin_dangerSignals = dangerSignals t\<rparr>)
         else
           let buyScore = ddiv (totalBuyWeight t) (totalWeight t);
               sellScore = ddiv (totalSellWeight t) (totalWeight t);
               (direction, confidence) =
                 (if buyScore > dadd sellScore (dbl (1 / 10))
                  then (BUY, js_round (dmul buyScore 100))
                  else if sellScore > dadd buyScore (dbl (1 / 10))
                  then (SELL, js_round (dmul sellScore 100))
                  else (NEUTRAL, 50))
           in \<lparr>fin_direction = direction,
               fin_confidence = min 100 (max 50 confidence),
               fin_dangerSignals = dangerSignals t\<rparr>)"

subsection \<open>performTechnicalAnalysis\<close>

record bar =
  bar_open :: number
  bar_high :: number
  bar_low :: number
  bar_close :: number
  bar_volume :: number

text \<open>
  The report as the trading bot receives it. A field that may be \<open>null\<close> or \<open>undefined\<close>
  is an option; a missing direction is \<open>None\<close>. Timestamps are left out.
\<close>

record analysisReport =
  rep_symbol :: string
  rep_price :: "number option"
  rep_analyses :: "analysis list"
  rep_direction :: "direction option"
  rep_confidence :: "number option"
  rep_dangerSignals :: "dangerSignal list"
  rep_error :: "string option"

text \<open>A call that may throw: \<open>Inl\<close> carries the message of the error.\<close>

type_synonym 'a outcome = "string + 'a"

text \<open>The ten steps of \<open>performTechnicalAnalysis\<close>, in order, each with its weight.\<close>

definition analyzerTable :: "(string \<times> number) list" where
  "analyzerTable =
     [ (''Moving Averages'', 15), (''RSI'', 10), (''MACD'', 12), (''Bollinger Bands'', 10),
       (''Support/Resistance'', 12), (''Volume'', 8), (''Candlestick Patterns'', 10),
       (''Fibonacci'', 8), (''Trend Strength'', 7), (''Market Sentiment'', 8) ]"

text \<open>
  What each analyzer does on the bars at hand is an argument, \<open>run\<close>: the result it
  returns, or the error it throws. The steps run in order and the first error ends them.
\<close>

fun collectAnalyses :: "(string \<times> number) list \<Rightarrow> (string \<Rightarrow> analyzerResult outcome) \<Rightarrow> analysis list outcome" where
  "collectAnalyses [] run = Inr []"
| "collectAnalyses ((nm, weight) # rest) run =
     (case run nm of
        Inl message \<Rightarrow> Inl message
      | Inr result \<Rightarrow>
          (case collectAnalyses rest run of
             Inl message \<Rightarrow> Inl message
           | Inr analyses \<Rightarrow>
               Inr (\<lparr>an_name = nm, an_result = result, an_weight = weight\<rparr> # analyses)))"

text \<open>
  The \<open>catch\<close> block reads \<open>barData[barData.length - 1].close\<close>; with no bars this is a
  \<open>TypeError\<close>, which leaves the function.
\<close>

definition performTechnicalAnalysis :: "string \<Rightarrow> bar list \<Rightarrow> (string \<Rightarrow> analyzerResult outcome) \<Rightarrow> analysisReport outcome" where
  "performTechnicalAnalysis symbol barData run =
     (let lastBar = js_at barData (int (length barData) - 1) in
      case collectAnalyses analyzerTable run of
        Inr analyses \<Rightarrow>
          let fin = calculateFinalResult analyses in
          Inr \<lparr>rep_symbol = symbol, rep_price = map_option bar_close lastBar,
               rep_analyses = analyses,
               rep_direction = Some (fin_direction fin),
               rep_confidence = Some (fin_confidence fin),
               rep_dangerSignals = fin_dangerSignals fin,
               rep_error = None\<rparr>
      | Inl message \<Rightarrow>
          (case lastBar of
             None \<Rightarrow> Inl ''TypeError''
           | Some b \<Rightarrow>
               Inr \<lparr>rep_symbol = symbol, rep_price = Some (bar_close b),
                    rep_analyses = [],
                    rep_direction = Some NEUTRAL,
                    rep_confidence = Some 50,
                    rep_dangerSignals = [],
                    rep_error = Some message\<rparr>))"

section \<open>Trading bot (tradingBot.js)\<close>

subsection \<open>Configuration\<close>

record tradingConfig =
  maxRiskPercent :: number
  minRiskPercent :: number
  maxLot :: number
  minLot :: number
  targetDailyGrowth :: number
  stopLossMultiplier :: number
  takeProfitMultiplier :: number

definition DEFAULT_CONFIG :: tradingConfig where
  "DEFAULT_CONFIG =
     \<lparr>maxRiskPercent = 10, minRiskPercent = 5 / 10, maxLot = 10, minLot = 1 / 100,
      targetDailyGrowth = 30, stopLossMultiplier = 5 / 10, takeProfitMultiplier = 15 / 10\<rparr>"

text \<open>
  The argument of \<open>updateConfig\<close>: an object holding some of the keys. A key that is
  absent is \<open>None\<close>.
\<close>

record configUpdate =
  new_maxRiskPercent :: "number option"
  new_minRiskPercent :: "number option"
  new_maxLot :: "number option"
  new_minLot :: "number option"
  new_targetDailyGrowth :: "number option"
  new_stopLossMultiplier :: "number option"
  new_takeProfitMultiplier :: "number option"

text \<open>\<open>config = { ...config, ...newConfig }\<close>: a key of \<open>newConfig\<close> replaces the old value.\<close>

definition spread :: "'a \<Rightarrow> 'a option \<Rightarrow> 'a" where
  "spread old new = (case new of Some v \<Rightarrow> v | None \<Rightarrow> old)"

definition updateConfig :: "tradingConfig \<Rightarrow> configUpdate \<Rightarrow> tradingConfig" where
  "updateConfig config newConfig =
     \<lparr>maxRiskPercent = spread (maxRiskPercent config) (new_maxRiskPercent newConfig),
      minRiskPercent = spread (minRiskPercent config) (new_minRiskPercent newConfig),
      maxLot = spread (maxLot config) (new_maxLot newConfig),
      minLot = spread (minLot config) (new_minLot newConfig),
      targetDailyGrowth = spread (targetDailyGrowth config) (new_targetDailyGrowth newConfig),
      stopLossMultiplier = spread (stopLossMultiplier config) (new_stopLossMultiplier newConfig),
      takeProfitMultiplier =
        spread (takeProfitMultiplier config) (new_takeProfitMultiplier newConfig)\<rparr>"

text \<open>The invariant the data model states for a configuration.\<close>

definition configInvariant :: "tradingConfig \<Rightarrow> bool" where
  "configInvariant config \<longleftrightarrow>
     0 < minRiskPercent config \<and> minRiskPercent config \<le> maxRiskPercent config \<and>
     0 < minLot config \<and> minLot config \<le> maxLot config"

subsection \<open>Order quantity (openNewPosition)\<close>

definition riskPercent :: "tradingConfig \<Rightarrow> number \<Rightarrow> number" where
  "riskPercent config confidence =
     (maxRiskPercent config - minRiskPercent config) * (confidence / 100) + minRiskPercent config"

definition riskAmount :: "tradingConfig \<Rightarrow> number \<Rightarrow> number \<Rightarrow> number" where
  "riskAmount config balance confidence = balance * (riskPercent config confidence / 100)"

definition lotMultiplier :: "tradingConfig \<Rightarrow> number \<Rightarrow> number" where
  "lotMultiplier config confidence =
     (maxLot config - minLot config) * (confidence / 100) + minLot config"

text \<open>
  The quantity after \<open>Math.max(config.minLot, Math.min(config.maxLot, quantity))\<close>, for a
  price that is not zero.
\<close>

definition clampedQuantity :: "tradingConfig \<Rightarrow> number \<Rightarrow> number \<Rightarrow> number \<Rightarrow> number" where
  "clampedQuantity config balance currentPrice confidence =
     (let baseQuantity = riskAmount config balance confidence / currentPrice;
          quantity = baseQuantity * lotMultiplier config confidence
      in max (minLot config) (min (maxLot config) quantity))"

text \<open>
  The quantity of the order, after \<open>parseFloat(quantity.toFixed(6))\<close>; \<open>None\<close> is \<open>NaN\<close>.
  With a price of zero the division gives \<open>NaN\<close> (zero risk amount) or an infinity with
  the sign of the risk amount; the product with the lot multiplier is \<open>NaN\<close> for a zero
  multiplier, and \<open>Math.min\<close>, \<open>Math.max\<close> then clamp \<open>+Infinity\<close> to the larger of
  the two lots and \<open>-Infinity\<close> to \<open>minLot\<close>.
\<close>

definition orderQuantity :: "tradingConfig \<Rightarrow> number \<Rightarrow> number \<Rightarrow> number \<Rightarrow> number option" where
  "orderQuantity config balance currentPrice confidence =
     (if currentPrice = 0 then
        (if riskAmount config balance confidence = 0 \<or> lotMultiplier config confidence = 0
         then None
         else if riskAmount config balance confidence * lotMultiplier config confidence > 0
         then Some (toFixed 6 (max (minLot config) (maxLot config)))
         else Some (toFixed 6 (minLot config)))
      else Some (toFixed 6 (clampedQuantity config balance currentPrice confidence)))"

subsection \<open>Collaborators and the records they keep\<close>

datatype status = OPEN | CLOSED | CLOSED_REVERSAL | CLOSED_DANGER

record position =
  pos_symbol :: string
  pos_qty :: number
  pos_side :: string
  avg_entry_price :: number
  current_price :: number
  unrealized_pl :: number

record trade =
  tr_symbol :: string
  tr_entryPrice :: number
  tr_exitPrice :: "number option"
  tr_quantity :: "number option"
  tr_side :: string
  tr_pnl :: "number option"
  tr_stopLoss :: "number option"
  tr_takeProfit :: "number option"
  tr_confidence :: "number option"
  tr_status :: status
  tr_orderId :: "string option"

text \<open>
  A bracket order (market, good till cancelled); a quantity or a price that is not a
  finite number is \<open>None\<close>.
\<close>

record order =
  ord_symbol :: string
  ord_qty :: "number option"
  ord_side :: string
  stop_price :: "number option"
  limit_price :: "number option"

text \<open>
  How the brokerage and the trade store answer. A call that throws is \<open>None\<close> (or
  \<open>False\<close>); \<open>saveTrade\<close> never throws, it returns whether the record was stored, and
  its callers do not read the answer.
\<close>

record env =
  clientAvailable :: bool
  closePositionOk :: "string \<Rightarrow> bool"
  getAccount :: "number option"
  getLatestQuote :: "string \<Rightarrow> (number \<times> number) option"
  createOrder :: "order \<Rightarrow> string option"
  saveTradeOk :: "trade \<Rightarrow> bool"
  getBars :: "string \<Rightarrow> bar list"
  mockBars :: "string \<Rightarrow> bar list"
  runAnalyzers :: "bar list \<Rightarrow> string \<Rightarrow> analyzerResult outcome"
  random :: number

text \<open>
  What the bot has done to the outside: the positions it closed at the brokerage, the
  orders it placed and the trade records it stored, each in order of time. The events sent
  to the user interface are left out.
\<close>

record world =
  closedPositions :: "string list"
  orders :: "order list"
  trades :: "trade list"

record symbolData =
  isTrading :: bool
  lastAnalysis :: "analysisReport option"
  openPositions :: "position list"
  analysisHistory :: "analysisReport list"

definition saveTrade :: "env \<Rightarrow> trade \<Rightarrow> world \<Rightarrow> world" where
  "saveTrade e t w = (if saveTradeOk e t then w\<lparr>trades := trades w @ [t]\<rparr> else w)"

text \<open>\<open>a || b\<close> on numbers: \<open>b\<close> when \<open>a\<close> is zero.\<close>

definition orElse :: "number \<Rightarrow> number \<Rightarrow> number" where
  "orElse a b = (if a = 0 then b else a)"

subsection \<open>openNewPosition\<close>

text \<open>
  The price of the order: the middle of the latest quote, or, when the quote cannot be
  had, the price of the analysis, or 100.
\<close>

definition quotePrice :: "env \<Rightarrow> string \<Rightarrow> analysisReport \<Rightarrow> number" where
  "quotePrice e symbol analysis =
     (case getLatestQuote e symbol of
        Some (bidprice, askprice) \<Rightarrow> (bidprice + askprice) / 2
      | None \<Rightarrow> (case rep_price analysis of Some p \<Rightarrow> orElse p 100 | None \<Rightarrow> 100))"

text \<open>
  Stop-loss and take-profit, from the Fibonacci support and resistance of the prices of
  the last 20 analyses, rounded to two decimals. With no analysis in the history both are
  infinite, \<open>None\<close>.
\<close>

definition stopLevels :: "symbolData \<Rightarrow> bool \<Rightarrow> number \<Rightarrow> number option \<times> number option" where
  "stopLevels data isBuy currentPrice =
     (let recentBars = drop (length (analysisHistory data) - 20) (analysisHistory data);
          prices = map (\<lambda>b. case rep_price b of Some p \<Rightarrow> orElse p currentPrice
                              | None \<Rightarrow> currentPrice) recentBars
      in case calculateFibonacciLevels prices isBuy of
           None \<Rightarrow> (None, None)
         | Some fibLevels \<Rightarrow>
             if isBuy
             then (Some (toFixed 2 (orElse (support fibLevels) (currentPrice * (1 - 2 / 100)))),
                   Some (toFixed 2 (orElse (resistance fibLevels) (currentPrice * (1 + 5 / 100)))))
             else (Some (toFixed 2 (orElse (resistance fibLevels) (currentPrice * (1 + 2 / 100)))),
                   Some (toFixed 2 (orElse (support fibLevels) (currentPrice * (1 - 5 / 100))))))"

text \<open>
  Every error is caught by the function's own \<open>try\<close>: the world is then as the calls made
  so far left it. A confidence that is \<open>undefined\<close> makes the quantity \<open>NaN\<close>.
\<close>

definition openNewPosition :: "string \<Rightarrow> symbolData \<Rightarrow> analysisReport \<Rightarrow> number \<Rightarrow> env \<Rightarrow> tradingConfig \<Rightarrow> world \<Rightarrow> world" where
  "openNewPosition symbol data analysis balance e config w =
     (if \<not> clientAvailable e then w
      else
        let currentPrice = quotePrice e symbol analysis;
            quantity = (case rep_confidence analysis of
                Some c \<Rightarrow> orderQuantity config balance currentPrice c
              | None \<Rightarrow> None);
            isBuy = (rep_direction analysis = Some BUY);
            (stopLossPrice, takeProfitPrice) = stopLevels data isBuy currentPrice;
            ord = \<lparr>ord_symbol = symbol, ord_qty = quantity,
                   ord_side = (if isBuy then ''buy'' else ''sell''),
                   stop_price = stopLossPrice, limit_price = takeProfitPrice\<rparr>
        in case createOrder e ord of
             None \<Rightarrow> w
           | Some orderId \<Rightarrow>
               saveTrade e
                 \<lparr>tr_symbol = symbol, tr_entryPrice = currentPrice, tr_exitPrice = None,
                  tr_quantity = quantity,
                  tr_side = (if isBuy then ''long'' else ''short''),
                  tr_pnl = None, tr_stopLoss = stopLossPrice, tr_takeProfit = takeProfitPrice,
                  tr_confidence = rep_confidence analysis,
                  tr_status = OPEN, tr_orderId = Some orderId\<rparr>
                 (w\<lparr>orders := orders w @ [ord]\<rparr>))"

subsection \<open>manageExistingPositions\<close>

definition closingTrade :: "string \<Rightarrow> position \<Rightarrow> status \<Rightarrow> trade" where
  "closingTrade symbol p st =
     \<lparr>tr_symbol = symbol, tr_entryPrice = avg_entry_price p,
      tr_exitPrice = Some (current_price p), tr_quantity = Some (pos_qty p),
      tr_side = pos_side p, tr_pnl = Some (unrealized_pl p),
      tr_stopLoss = None, tr_takeProfit = None, tr_confidence = None,
      tr_status = st, tr_orderId = None\<rparr>"

text \<open>The direction that a position stands for: BUY for the side \<open>long\<close>, SELL otherwise.\<close>

definition currentDirection :: "position \<Rightarrow> direction" where
  "currentDirection p = (if pos_side p = ''long'' then BUY else SELL)"

text \<open>
  All calls are inside one \<open>try\<close>: an error ends the function and leaves the world as the
  calls made so far left it. With no open position, \<open>position.side\<close> is a \<open>TypeError\<close>,
  caught like every other error.
\<close>

definition manageExistingPositions :: "string \<Rightarrow> symbolData \<Rightarrow> analysisReport \<Rightarrow> env \<Rightarrow> tradingConfig \<Rightarrow> world \<Rightarrow> world" where
  "manageExistingPositions symbol data analysis e config w =
     (if \<not> clientAvailable e then w
      else case openPositions data of
        [] \<Rightarrow> w
      | p # _ \<Rightarrow>
          if rep_direction analysis \<noteq> Some (currentDirection p) \<and>
             js_ge (rep_confidence analysis) (Some 75)
          then
            (if \<not> closePositionOk e symbol then w
             else
               let w1 = w\<lparr>closedPositions := closedPositions w @ [symbol]\<rparr>;
                   w2 = saveTrade e (closingTrade symbol p CLOSED_REVERSAL) w1
               in case getAccount e of
                    None \<Rightarrow> w2
                  | Some balance \<Rightarrow> openNewPosition symbol data analysis balance e config w2)
          else if length (rep_dangerSignals analysis) > 0
          then
            (if list_ex (\<lambda>sg. importance sg \<ge> 7) (rep_dangerSignals analysis)
             then
               (if \<not> closePositionOk e symbol then w
                else saveTrade e (closingTrade symbol p CLOSED_DANGER)
                       (w\<lparr>closedPositions := closedPositions w @ [symbol]\<rparr>))
             else w)
          else w)"

subsection \<open>processSymbol\<close>

text \<open>
  The check of the analysis and its replacement: \<open>None\<close> is an analysis that is \<open>null\<close>.
  The direction of the replacement is drawn with \<open>Math.random()\<close>, here \<open>rnd\<close>.
\<close>

definition analysisOrFallback :: "string \<Rightarrow> bar list \<Rightarrow> number \<Rightarrow> analysisReport option \<Rightarrow> analysisReport" where
  "analysisOrFallback symbol barData rnd analysis =
     (let fallback =
            \<lparr>rep_symbol = symbol,
             rep_price = Some (case js_at barData (int (length barData) - 1) of
                                 Some b \<Rightarrow> orElse (bar_close b) 100 | None \<Rightarrow> 100),
             rep_analyses = [],
             rep_direction = Some (if rnd > 5 / 10 then BUY else SELL),
             rep_confidence = Some 70,
             rep_dangerSignals = [],
             rep_error = None\<rparr>
      in case analysis of
           None \<Rightarrow> fallback
         | Some a \<Rightarrow>
             if rep_direction a = None \<or> rep_confidence a = None then fallback else a)"

text \<open>
  One evaluation of a symbol. An error that leaves \<open>performTechnicalAnalysis\<close> is caught
  by the outer \<open>try\<close>, and nothing changes.
\<close>

definition processSymbol :: "string \<Rightarrow> symbolData \<Rightarrow> number \<Rightarrow> position list \<Rightarrow> env \<Rightarrow> tradingConfig \<Rightarrow> world \<Rightarrow> symbolData \<times> world" where
  "processSymbol symbol data balance positions e config w =
     (if \<not> clientAvailable e then (data, w)
      else
        let fetched = getBars e symbol;
            barData = (if length fetched < 50 then mockBars e symbol else fetched)
        in case performTechnicalAnalysis symbol barData (runAnalyzers e barData) of
             Inl message \<Rightarrow> (data, w)
           | Inr result \<Rightarrow>
               let analysis = analysisOrFallback symbol barData (random e) (Some result);
                   pushed = analysisHistory data @ [analysis];
                   history = (if length pushed > 100 then tl pushed else pushed);
                   symbolPositions = filter (\<lambda>p. pos_symbol p = symbol) positions;
                   data' = data\<lparr>analysisHistory := history, lastAnalysis := Some analysis,
                                openPositions := symbolPositions\<rparr>
               in if length symbolPositions > 0
                  then (data', manageExistingPositions symbol data' analysis e config w)
                  else if js_ge (rep_confidence analysis) (Some 60)
                  then (data', openNewPosition symbol data' analysis balance e config w)
                  else (data', w))"

section \<open>The properties, as the specification words them\<close>

subsection \<open>Ordering of the retracement levels\<close>

text \<open>
  \<open>lookup\<close> reads a level by its name. In an uptrend the levels descend from the highest
  point (level 0) to the lowest (level 1); in a downtrend they ascend from the lowest to
  the highest.
\<close>

definition levelsOrdered :: "bool \<Rightarrow> number \<Rightarrow> number \<Rightarrow> (string \<Rightarrow> number option) \<Rightarrow> bool" where
  "levelsOrdered isUptrend lowest highest lookup =
     (case (lookup ''0'', lookup ''0.236'', lookup ''0.382'', lookup ''0.5'',
            lookup ''0.618'', lookup ''0.786'', lookup ''1'') of
        (Some l0, Some a, Some b, Some c, Some d, Some e, Some l1) \<Rightarrow>
          (if isUptrend
           then l0 = highest \<and> l1 = lowest \<and>
                highest \<ge> a \<and> a \<ge> b \<and> b \<ge> c \<and> c \<ge> d \<and> d \<ge> e \<and> e \<ge> lowest
           else l0 = lowest \<and> l1 = highest \<and>
                lowest \<le> a \<and> a \<le> b \<and> b \<le> c \<and> c \<le> d \<and> d \<le> e \<and> e \<le> highest)
      | _ \<Rightarrow> False)"

subsection \<open>Nearest level below and above the last price\<close>

text \<open>The values of all retracement and extension levels of a price list.\<close>

definition allLevelPrices :: "number list \<Rightarrow> bool \<Rightarrow> number list" where
  "allLevelPrices prices isUptrend =
     map snd (fibLevelEntries (Max (set prices)) (Min (set prices)) isUptrend @
              fibExtensionEntries (Max (set prices)) (Min (set prices)) isUptrend)"

text \<open>
  The nearest level strictly below the last price, and the minimum of the list when no
  level is strictly below it; the same above.
\<close>

definition nearestLevelBelow :: "number list \<Rightarrow> bool \<Rightarrow> number" where
  "nearestLevelBelow prices isUptrend =
     (let below = filter (\<lambda>l. l < last prices) (allLevelPrices prices isUptrend)
      in if below = [] then Min (set prices) else Max (set below))"

definition nearestLevelAbove :: "number list \<Rightarrow> bool \<Rightarrow> number" where
  "nearestLevelAbove prices isUptrend =
     (let above = filter (\<lambda>l. l > last prices) (allLevelPrices prices isUptrend)
      in if above = [] then Max (set prices) else Min (set above))"

subsection \<open>Consensus scores\<close>

text \<open>
  The vote of an analysis for a direction: \<open>weight * (confidence / 100)\<close> when its
  result has that direction, nothing otherwise. The weighted score of a direction: the sum
  of the votes for it, divided by the sum of all weights. Both are exact reals.
\<close>

definition vote :: "direction \<Rightarrow> analysis \<Rightarrow> real" where
  "vote d a =
     (if res_direction (an_result a) = d
      then an_weight a * (res_confidence (an_result a) / 100) else 0)"

definition score :: "direction \<Rightarrow> analysis list \<Rightarrow> real" where
  "score d analyses = sum_list (map (vote d) analyses) / sum_list (map an_weight analyses)"

definition buyScore :: "analysis list \<Rightarrow> real" where
  "buyScore analyses = score BUY analyses"

definition sellScore :: "analysis list \<Rightarrow> real" where
  "sellScore analyses = score SELL analyses"





subsection \<open>Signal strengths and caps\<close>

text \<open>The summed strength of the signals of one direction.\<close>

definition strengthOf :: "direction \<Rightarrow> signal list \<Rightarrow> number" where
  "strengthOf d signals = sum_list (map strength (filter (\<lambda>s. sig_direction s = d) signals))"

text \<open>The cap on the confidence that the specification gives for each signal analyzer.\<close>

fun specCap :: "analyzer \<Rightarrow> number" where
  "specCap Volume = 85"
| "specCap CandlestickPatterns = 85"
| "specCap Fibonacci = 85"
| "specCap _ = 90"

section \<open>Sample inputs\<close>

text \<open>One news item of sentiment 0.25.\<close>

definition sampleNews :: "newsItem list" where
  "sampleNews = [\<lparr>news_source = ''wire'', news_headline = ''Shares rise'', news_sentiment = 25 / 100\<rparr>]"


text \<open>Twenty volumes, the last four times the others, on a rising close.\<close>

definition sampleVolumes :: "number list" where
  "sampleVolumes = replicate 19 100 @ [400]"

text \<open>An update that supplies \<open>minLot = 20\<close> and nothing else.\<close>

definition sampleUpdate :: configUpdate where
  "sampleUpdate =
     \<lparr>new_maxRiskPercent = None, new_minRiskPercent = None, new_maxLot = None,
      new_minLot = Some 20, new_targetDailyGrowth = None, new_stopLossMultiplier = None,
      new_takeProfitMultiplier = None\<rparr>"

text \<open>An update of the daily growth target only.\<close>

definition growthUpdate :: configUpdate where
  "growthUpdate =
     \<lparr>new_maxRiskPercent = None, new_minRiskPercent = None, new_maxLot = None,
      new_minLot = None, new_targetDailyGrowth = Some 40, new_stopLossMultiplier = None,
      new_takeProfitMultiplier = None\<rparr>"

text \<open>One bar closing at 101.\<close>

definition sampleBar :: bar where
  "sampleBar = \<lparr>bar_open = 100, bar_high = 102, bar_low = 99, bar_close = 101, bar_volume = 500\<rparr>"

text \<open>Analyzers of which the RSI step throws; the others return a neutral vote.\<close>

definition failingRun :: "string \<Rightarrow> analyzerResult outcome" where
  "failingRun nm =
     (if nm = ''RSI'' then Inl ''Cannot read properties of undefined''
      else Inr \<lparr>res_direction = NEUTRAL, res_confidence = 50, res_signals = []\<rparr>)"

text \<open>
  The default configuration with a largest lot of seven decimals, 1.0000007, and with a
  smallest lot of seven decimals, 0.0000004.
\<close>

definition fineLotConfig :: tradingConfig where
  "fineLotConfig = DEFAULT_CONFIG\<lparr>maxLot := 10000007 / 10000000\<rparr>"

definition tinyLotConfig :: tradingConfig where
  "tinyLotConfig = DEFAULT_CONFIG\<lparr>minLot := 4 / 10000000\<rparr>"



text \<open>
  A long position in AAPL; a report for AAPL at the price 100, of a given direction,
  confidence and list of danger signals; the data of the symbol, with that position and a
  history of one analysis; and a world in which nothing has been done yet.
\<close>

definition samplePosition :: position where
  "samplePosition =
     \<lparr>pos_symbol = ''AAPL'', pos_qty = 2, pos_side = ''long'', avg_entry_price = 95,
      current_price = 100, unrealized_pl = 10\<rparr>"

definition sampleReport :: "direction \<Rightarrow> number \<Rightarrow> dangerSignal list \<Rightarrow> analysisReport" where
  "sampleReport d c dangers =
     \<lparr>rep_symbol = ''AAPL'', rep_price = Some 100, rep_analyses = [],
      rep_direction = Some d, rep_confidence = Some c, rep_dangerSignals = dangers,
      rep_error = None\<rparr>"

definition sampleData :: symbolData where
  "sampleData =
     \<lparr>isTrading = False, lastAnalysis = None, openPositions = [samplePosition],
      analysisHistory = [sampleReport SELL 80 []]\<rparr>"



definition emptyWorld :: world where
  "emptyWorld = \<lparr>closedPositions = [], orders = [], trades = []\<rparr>"

text \<open>
  A brokerage and a store that accept every call, with an equity of 10500 and a quote of
  99 to 101; the same with a brokerage that rejects every order; and the same with a
  brokerage that fails to close positions.
\<close>

definition sampleEnv :: env where
  "sampleEnv =
     \<lparr>clientAvailable = True, closePositionOk = (\<lambda>symbol. True), getAccount = Some 10500,
      getLatestQuote = (\<lambda>symbol. Some (99, 101)), createOrder = (\<lambda>ord. Some ''order-1''),
      saveTradeOk = (\<lambda>t. True), getBars = (\<lambda>symbol. []), mockBars = (\<lambda>symbol. []),
      runAnalyzers = (\<lambda>barData. failingRun), random = 3 / 10\<rparr>"


definition notClosingEnv :: env where
  "notClosingEnv = sampleEnv\<lparr>closePositionOk := (\<lambda>symbol. False)\<rparr>"

text \<open>
  Three analyses under the names of the table: Bollinger Bands with the price above the
  upper band, RSI overbought at strength 80, and Volume with a climax.
\<close>

definition bollingerAnalysis :: analysis where
  "bollingerAnalysis =
     \<lparr>an_name = ''Bollinger Bands'',
      an_result = analyzerReturn BollingerBands
        [\<lparr>sig_name = ''Price Above Upper Band'', sig_direction = SELL, strength = 70\<rparr>],
      an_weight = 10\<rparr>"

definition rsiAnalysis :: analysis where
  "rsiAnalysis =
     \<lparr>an_name = ''RSI'',
      an_result = analyzerReturn RSI
        [\<lparr>sig_name = ''RSI Overbought'', sig_direction = SELL, strength = 80\<rparr>],
      an_weight = 10\<rparr>"

definition volumeAnalysis :: analysis where
  "volumeAnalysis =
     \<lparr>an_name = ''Volume'',
      an_result = analyzerReturn Volume
        [\<lparr>sig_name = ''High Volume Price Increase'', sig_direction = BUY, strength = 80\<rparr>,
         \<lparr>sig_name = ''Volume Climax'', sig_direction = SELL, strength = 70\<rparr>],
      an_weight = 8\<rparr>"

definition dangerAnalyses :: "analysis list" where
  "dangerAnalyses = [bollingerAnalysis, rsiAnalysis, volumeAnalysis]"

text \<open>The danger signal of the Bollinger Bands, of importance 8.\<close>

definition sampleDanger :: dangerSignal where
  "sampleDanger = \<lparr>danger_name = ''Extreme Overbought on Bollinger Bands'', importance = 8\<rparr>"

section \<open>Fibonacci levels: proofs\<close>

lemma scanStep_support:
  assumes "scan_support s \<le> cur" "closestSupportDistance s = cur - scan_support s"
  shows "scan_support (scanStep cur s x) = (if x < cur then max x (scan_support s) else scan_support s)"
    and "closestSupportDistance (scanStep cur s x) = cur - scan_support (scanStep cur s x)"
    and "scan_support (scanStep cur s x) \<le> cur"
  using assms by (auto simp: scanStep_def Let_def)

lemma scanStep_resistance:
  assumes "cur \<le> scan_resistance s" "closestResistanceDistance s = scan_resistance s - cur"
  shows "scan_resistance (scanStep cur s x) = (if cur < x then min x (scan_resistance s) else scan_resistance s)"
    and "closestResistanceDistance (scanStep cur s x) = scan_resistance (scanStep cur s x) - cur"
    and "cur \<le> scan_resistance (scanStep cur s x)"
  using assms by (auto simp: scanStep_def Let_def)

lemma Max_insert_max:
  fixes a x :: real
  assumes "finite A"
  shows "Max (insert (max x a) A) = Max (insert a (insert x A))"
proof (cases "A = {}")
  case True
  then show ?thesis by (simp add: max.commute)
next
  case False
  with assms show ?thesis by (simp add: max.assoc max.commute max.left_commute)
qed

lemma Min_insert_min:
  fixes a x :: real
  assumes "finite A"
  shows "Min (insert (min x a) A) = Min (insert a (insert x A))"
proof (cases "A = {}")
  case True
  then show ?thesis by (simp add: min.commute)
next
  case False
  with assms show ?thesis by (simp add: min.assoc min.commute min.left_commute)
qed

lemma scan_support_foldl:
  assumes "scan_support s \<le> cur" "closestSupportDistance s = cur - scan_support s"
  shows "scan_support (foldl (scanStep cur) s xs) = Max (insert (scan_support s) {x \<in> set xs. x < cur})
       \<and> closestSupportDistance (foldl (scanStep cur) s xs) = cur - scan_support (foldl (scanStep cur) s xs)
       \<and> scan_support (foldl (scanStep cur) s xs) \<le> cur"
  using assms
proof (induction xs arbitrary: s)
  case Nil
  then show ?case by simp
next
  case (Cons x xs)
  note st = scanStep_support[OF Cons.prems, of x]
  have fin: "finite {y \<in> set xs. y < cur}" by simp
  have "Max (insert (scan_support (scanStep cur s x)) {y \<in> set xs. y < cur})
      = Max (insert (scan_support s) {y \<in> set (x # xs). y < cur})"
  proof (cases "x < cur")
    case True
    then have eq: "{y \<in> set (x # xs). y < cur} = insert x {y \<in> set xs. y < cur}" by auto
    show ?thesis
      unfolding eq st(1) using True Max_insert_max[OF fin] by simp
  next
    case False
    then have eq: "{y \<in> set (x # xs). y < cur} = {y \<in> set xs. y < cur}" by auto
    show ?thesis unfolding eq st(1) using False by simp
  qed
  with Cons.IH[OF st(3) st(2)] Cons.prems show ?case by simp
qed

lemma scan_resistance_foldl:
  assumes "cur \<le> scan_resistance s" "closestResistanceDistance s = scan_resistance s - cur"
  shows "scan_resistance (foldl (scanStep cur) s xs) = Min (insert (scan_resistance s) {x \<in> set xs. cur < x})
       \<and> closestResistanceDistance (foldl (scanStep cur) s xs) = scan_resistance (foldl (scanStep cur) s xs) - cur
       \<and> cur \<le> scan_resistance (foldl (scanStep cur) s xs)"
  using assms
proof (induction xs arbitrary: s)
  case Nil
  then show ?case by simp
next
  case (Cons x xs)
  note st = scanStep_resistance[OF Cons.prems, of x]
  have fin: "finite {y \<in> set xs. cur < y}" by simp
  have "Min (insert (scan_resistance (scanStep cur s x)) {y \<in> set xs. cur < y})
      = Min (insert (scan_resistance s) {y \<in> set (x # xs). cur < y})"
  proof (cases "cur < x")
    case True
    then have eq: "{y \<in> set (x # xs). cur < y} = insert x {y \<in> set xs. cur < y}" by auto
    show ?thesis
      unfolding eq st(1) using True Min_insert_min[OF fin] by simp
  next
    case False
    then have eq: "{y \<in> set (x # xs). cur < y} = {y \<in> set xs. cur < y}" by auto
    show ?thesis unfolding eq st(1) using False by simp
  qed
  with Cons.IH[OF st(3) st(2)] Cons.prems show ?case by simp
qed


lemma lowest_in_levels: "Min (set prices) \<in> set (allLevelPrices prices up)"
  by (simp add: allLevelPrices_def fibLevelEntries_def Let_def)

lemma highest_in_levels: "Max (set prices) \<in> set (allLevelPrices prices up)"
  by (simp add: allLevelPrices_def fibLevelEntries_def Let_def)

lemma calculateFibonacciLevels_scan:
  assumes "prices \<noteq> []"
  shows "\<exists>f. calculateFibonacciLevels prices up = Some f
     \<and> levels f = fibLevelEntries (Max (set prices)) (Min (set prices)) up
     \<and> extensions f = fibExtensionEntries (Max (set prices)) (Min (set prices)) up
     \<and> support f = Max (insert (Min (set prices)) {x \<in> set (allLevelPrices prices up). x < last prices})
     \<and> resistance f = Min (insert (Max (set prices)) {x \<in> set (allLevelPrices prices up). last prices < x})"
proof -
  let ?cur = "last prices"
  let ?lo = "Min (set prices)"
  let ?hi = "Max (set prices)"
  let ?s0 = "\<lparr>scan_support = ?lo, closestSupportDistance = \<bar>?cur - ?lo\<bar>,
              scan_resistance = ?hi, closestResistanceDistance = \<bar>?hi - ?cur\<bar>\<rparr>"
  have lo: "?lo \<le> ?cur" and hi: "?cur \<le> ?hi" using assms by simp_all
  have sup: "scan_support ?s0 \<le> ?cur" "closestSupportDistance ?s0 = ?cur - scan_support ?s0"
    using lo by simp_all
  have res: "?cur \<le> scan_resistance ?s0" "closestResistanceDistance ?s0 = scan_resistance ?s0 - ?cur"
    using hi by simp_all
  have fold: "foldl (scanStep ?cur) (foldl (scanStep ?cur) ?s0 (map snd (fibLevelEntries ?hi ?lo up)))
                (map snd (fibExtensionEntries ?hi ?lo up))
            = foldl (scanStep ?cur) ?s0 (allLevelPrices prices up)"
    by (simp add: allLevelPrices_def)
  show ?thesis
    using assms scan_support_foldl[OF sup, of "allLevelPrices prices up"]
      scan_resistance_foldl[OF res, of "allLevelPrices prices up"]
    unfolding calculateFibonacciLevels_def Let_def fold
    by simp
qed

subsection \<open>Ordering of the levels\<close>

lemma retracement_levels_ordered:
  assumes "lowestPoint \<le> highestPoint"
  shows "levelsOrdered isUptrend lowestPoint highestPoint
           (levelPrice (calculateFibonacciRetracementLevels highestPoint lowestPoint isUptrend))"
  using assms
  by (cases isUptrend; simp add: levelsOrdered_def levelPrice_def
        calculateFibonacciRetracementLevels_def Let_def; simp add: field_simps)

lemma level_entries_ordered:
  assumes "lowestPrice \<le> highestPrice"
  shows "levelsOrdered isUptrend lowestPrice highestPrice
           (map_of (fibLevelEntries highestPrice lowestPrice isUptrend))"
  using assms
  by (cases isUptrend; simp add: levelsOrdered_def fibLevelEntries_def Let_def;
      simp add: field_simps)

text \<open>
  Claim C9. For every pair \<open>highestPoint \<ge> lowestPoint\<close>, the retracement levels of
  \<open>calculateFibonacciRetracementLevels\<close> are ordered: in an uptrend level 0 is the highest
  point, level 1 the lowest, and the levels 0.236, 0.382, 0.5, 0.618, 0.786 descend between
  them; in a downtrend the order is mirrored. The same holds for the \<open>levels\<close> that
  \<open>calculateFibonacciLevels\<close> computes from the maximum and the minimum of a non-empty
  price list.
\<close>

theorem fibonacci_levels_ordered:
  "(lowestPoint \<le> highestPoint \<longrightarrow>
      levelsOrdered isUptrend lowestPoint highestPoint
        (levelPrice (calculateFibonacciRetracementLevels highestPoint lowestPoint isUptrend))) \<and>
   (prices \<noteq> [] \<longrightarrow>
      (\<exists>f. calculateFibonacciLevels prices isUptrend = Some f \<and>
           levelsOrdered isUptrend (Min (set prices)) (Max (set prices)) (map_of (levels f))))"
proof (intro conjI impI)
  assume "lowestPoint \<le> highestPoint"
  then show "levelsOrdered isUptrend lowestPoint highestPoint
        (levelPrice (calculateFibonacciRetracementLevels highestPoint lowestPoint isUptrend))"
    by (rule retracement_levels_ordered)
next
  assume ne: "prices \<noteq> []"
  then have "Min (set prices) \<le> Max (set prices)" by simp
  from level_entries_ordered[OF this, of isUptrend] calculateFibonacciLevels_scan[OF ne, of isUptrend]
  show "\<exists>f. calculateFibonacciLevels prices isUptrend = Some f \<and>
           levelsOrdered isUptrend (Min (set prices)) (Max (set prices)) (map_of (levels f))"
    by auto
qed

theorem fibonacci_levels_ordered_witness:
  "(100 :: real) \<le> 110 \<and> [100, 110, 104 :: real] \<noteq> [] \<and>
   levelsOrdered True 100 110 (levelPrice (calculateFibonacciRetracementLevels 110 100 True)) \<and>
   levelPrice (calculateFibonacciRetracementLevels 110 100 True) ''0.236'' = Some (10764 / 100) \<and>
   levelPrice (calculateFibonacciRetracementLevels 110 100 True) ''0.786'' = Some (10214 / 100) \<and>
   levelsOrdered False 100 110 (levelPrice (calculateFibonacciRetracementLevels 110 100 False)) \<and>
   levelPrice (calculateFibonacciRetracementLevels 110 100 False) ''0.236'' = Some (10236 / 100) \<and>
   levelPrice (calculateFibonacciRetracementLevels 110 100 False) ''0.786'' = Some (10786 / 100) \<and>
   (\<exists>f. calculateFibonacciLevels [100, 110, 104] True = Some f \<and>
        levelsOrdered True 100 110 (map_of (levels f)))"
proof -
  have v: "levelPrice (calculateFibonacciRetracementLevels 110 100 True) ''0.236'' = Some (10764 / 100)"
    "levelPrice (calculateFibonacciRetracementLevels 110 100 True) ''0.786'' = Some (10214 / 100)"
    "levelPrice (calculateFibonacciRetracementLevels 110 100 False) ''0.236'' = Some (10236 / 100)"
    "levelPrice (calculateFibonacciRetracementLevels 110 100 False) ''0.786'' = Some (10786 / 100)"
    by (simp_all add: levelPrice_def calculateFibonacciRetracementLevels_def Let_def)
  from fibonacci_levels_ordered[of 100 110 True "[100, 110, 104]"]
    fibonacci_levels_ordered[of 100 110 False "[100, 110, 104]"] v
  show ?thesis by simp
qed

subsection \<open>Support and resistance\<close>

text \<open>
  What the two scanning loops return. The support and the resistance bracket the last
  price. When the last price is above the minimum of the list, the support is the nearest
  level strictly below it; when the last price is the minimum, the scan starts at
  distance zero, no level can be nearer, and the support is the last price itself,
  whatever levels lie below. The same holds for the resistance and the maximum.
\<close>

lemma support_resistance_bracket:
  assumes "prices \<noteq> []"
  shows "\<exists>f. calculateFibonacciLevels prices isUptrend = Some f
     \<and> support f \<le> last prices \<and> last prices \<le> resistance f
     \<and> support f = (if Min (set prices) < last prices
                     then nearestLevelBelow prices isUptrend else Min (set prices))
     \<and> resistance f = (if last prices < Max (set prices)
                        then nearestLevelAbove prices isUptrend else Max (set prices))"
proof -
  let ?cur = "last prices"
  let ?lo = "Min (set prices)"
  let ?hi = "Max (set prices)"
  let ?B = "{x \<in> set (allLevelPrices prices isUptrend). x < ?cur}"
  let ?A = "{x \<in> set (allLevelPrices prices isUptrend). ?cur < x}"
  from calculateFibonacciLevels_scan[OF assms, of isUptrend]
  obtain f where f: "calculateFibonacciLevels prices isUptrend = Some f"
    and s: "support f = Max (insert ?lo ?B)"
    and r: "resistance f = Min (insert ?hi ?A)"
    by blast
  have lo: "?lo \<le> ?cur" and hi: "?cur \<le> ?hi" using assms by simp_all
  have finB: "finite ?B" and finA: "finite ?A" by simp_all
  have s_le: "support f \<le> ?cur"
    unfolding s using lo finB by (subst Max_le_iff) auto
  have r_ge: "?cur \<le> resistance f"
    unfolding r using hi finA by (subst Min_ge_iff) auto
  have s_eq: "support f = (if ?lo < ?cur then nearestLevelBelow prices isUptrend else ?lo)"
  proof (cases "?lo < ?cur")
    case True
    then have "?lo \<in> ?B" using lowest_in_levels by simp
    then have "insert ?lo ?B = ?B" "?B \<noteq> {}" by auto
    moreover have "set (filter (\<lambda>l. l < ?cur) (allLevelPrices prices isUptrend)) = ?B" by auto
    ultimately show ?thesis
      using True s by (auto simp: nearestLevelBelow_def Let_def filter_empty_conv)
  next
    case False
    with lo have eq: "?lo = ?cur" by simp
    have "Max (insert ?cur ?B) = ?cur"
      by (rule Max_eqI) (use finB in auto)
    with False s eq show ?thesis by simp
  qed
  have r_eq: "resistance f = (if ?cur < ?hi then nearestLevelAbove prices isUptrend else ?hi)"
  proof (cases "?cur < ?hi")
    case True
    then have "?hi \<in> ?A" using highest_in_levels by simp
    then have "insert ?hi ?A = ?A" "?A \<noteq> {}" by auto
    moreover have "set (filter (\<lambda>l. l > ?cur) (allLevelPrices prices isUptrend)) = ?A" by auto
    ultimately show ?thesis
      using True r by (auto simp: nearestLevelAbove_def Let_def filter_empty_conv)
  next
    case False
    with hi have eq: "?hi = ?cur" by simp
    have "Min (insert ?cur ?A) = ?cur"
      by (rule Min_eqI) (use finA in auto)
    with False r eq show ?thesis by simp
  qed
  from f s_le r_ge s_eq r_eq show ?thesis by blast
qed


lemma Max_insert_absorb:
  fixes a :: real
  assumes "finite A" "finite B" "\<forall>b \<in> B. b \<le> a"
  shows "Max (insert a (A \<union> B)) = Max (insert a A)"
proof (rule Max_eqI)
  show "finite (insert a (A \<union> B))" using assms by simp
  show "Max (insert a A) \<in> insert a (A \<union> B)"
    using Max_in[of "insert a A"] assms(1) by auto
  fix y assume y: "y \<in> insert a (A \<union> B)"
  have a: "a \<le> Max (insert a A)" using assms(1) by simp
  show "y \<le> Max (insert a A)"
  proof (cases "y \<in> B")
    case True
    with assms(3) have "y \<le> a" by blast
    then show ?thesis using a by (rule order_trans)
  next
    case False
    with y have "y \<in> insert a A" by blast
    then show ?thesis using assms(1) by simp
  qed
qed

lemma Min_insert_absorb:
  fixes a :: real
  assumes "finite A" "finite B" "\<forall>b \<in> B. a \<le> b"
  shows "Min (insert a (A \<union> B)) = Min (insert a A)"
proof (rule Min_eqI)
  show "finite (insert a (A \<union> B))" using assms by simp
  show "Min (insert a A) \<in> insert a (A \<union> B)"
    using Min_in[of "insert a A"] assms(1) by auto
  fix y assume y: "y \<in> insert a (A \<union> B)"
  have a: "Min (insert a A) \<le> a" using assms(1) by simp
  show "Min (insert a A) \<le> y"
  proof (cases "y \<in> B")
    case True
    with assms(3) have "a \<le> y" by blast
    with a show ?thesis by (rule order_trans)
  next
    case False
    with y have "y \<in> insert a A" by blast
    then show ?thesis using assms(1) by simp
  qed
qed

lemma extensions_outside:
  assumes "lo \<le> hi" "x \<in> snd ` set (fibExtensionEntries hi lo up)"
  shows "x \<le> lo \<or> hi \<le> x" "up \<longrightarrow> hi \<le> x" "\<not> up \<longrightarrow> x \<le> lo"
  using assms by (auto simp: fibExtensionEntries_def Let_def)

text \<open>
  The loop over the extension levels never changes the result: an extension level lies at
  or beyond the maximum or the minimum of the list, which is itself a candidate and at
  least as near. The support and the resistance are those of the retracement levels
  alone.
\<close>

lemma extensions_never_selected:
  assumes "prices \<noteq> []"
  shows "\<exists>f. calculateFibonacciLevels prices up = Some f \<and>
     support f = Max (insert (Min (set prices)) {x \<in> snd ` set (levels f). x < last prices}) \<and>
     resistance f = Min (insert (Max (set prices)) {x \<in> snd ` set (levels f). last prices < x})"
proof -
  let ?cur = "last prices" and ?lo = "Min (set prices)" and ?hi = "Max (set prices)"
  let ?L = "snd ` set (fibLevelEntries ?hi ?lo up)"
  let ?E = "snd ` set (fibExtensionEntries ?hi ?lo up)"
  from calculateFibonacciLevels_scan[OF assms, of up]
  obtain f where f: "calculateFibonacciLevels prices up = Some f"
    and l: "levels f = fibLevelEntries ?hi ?lo up"
    and s: "support f = Max (insert ?lo {x \<in> set (allLevelPrices prices up). x < ?cur})"
    and r: "resistance f = Min (insert ?hi {x \<in> set (allLevelPrices prices up). ?cur < x})"
    by blast
  have lohi: "?lo \<le> ?hi" and lo: "?lo \<le> ?cur" and hi: "?cur \<le> ?hi" using assms by simp_all
  have all: "set (allLevelPrices prices up) = ?L \<union> ?E"
    by (simp add: allLevelPrices_def)
  have below: "{x \<in> set (allLevelPrices prices up). x < ?cur} = {x \<in> ?L. x < ?cur} \<union> {x \<in> ?E. x < ?cur}"
    and above: "{x \<in> set (allLevelPrices prices up). ?cur < x} = {x \<in> ?L. ?cur < x} \<union> {x \<in> ?E. ?cur < x}"
    unfolding all by auto
  have eb: "\<forall>b \<in> {x \<in> ?E. x < ?cur}. b \<le> ?lo"
    using extensions_outside(1)[OF lohi] hi by fastforce
  have ea: "\<forall>b \<in> {x \<in> ?E. ?cur < x}. ?hi \<le> b"
    using extensions_outside(1)[OF lohi] lo by fastforce
  have "support f = Max (insert ?lo {x \<in> ?L. x < ?cur})"
    unfolding s below by (rule Max_insert_absorb) (use eb in simp_all)
  moreover have "resistance f = Min (insert ?hi {x \<in> ?L. ?cur < x})"
    unfolding r above by (rule Min_insert_absorb) (use ea in simp_all)
  ultimately show ?thesis using f l by simp
qed

text \<open>
  Claim C10. For every non-empty price list the support and the resistance bracket the
  last price, the support being the nearest retracement or extension level strictly below
  the last price and the resistance the nearest level strictly above it. The code misses
  the case of a last price that is the maximum or the minimum of the list, the one case in
  which an extension level is the nearest: for the prices 100, 110 in an uptrend the
  nearest level strictly above the last price 110 is the extension at 112.72, and the
  resistance returned is 110; for the prices 110, 100 in a downtrend the nearest level
  strictly below the last price 100 is the extension at 97.28, and the support returned
  is 100.
\<close>

theorem support_resistance_at_extreme:
  "map_option resistance (calculateFibonacciLevels [100, 110] True) = Some 110 \<and>
   nearestLevelAbove [100, 110] True = 11272 / 100 \<and>
   map_option support (calculateFibonacciLevels [110, 100] False) = Some 100 \<and>
   nearestLevelBelow [110, 100] False = 9728 / 100"
  by code_simp

section \<open>Rounding to doubles: proofs\<close>















section \<open>Signal analyzers: proofs\<close>

lemma foldl_strength: "foldl (\<lambda>sum s. sum + strength s) acc xs = acc + sum_list (map strength xs)"
  by (induction xs arbitrary: acc) simp_all

lemma signalVerdict_strengths:
  "signalVerdict cap signals =
     (if strengthOf BUY signals > strengthOf SELL signals
      then (BUY, min cap (50 + js_round ((strengthOf BUY signals - strengthOf SELL signals) / 2)))
      else if strengthOf SELL signals > strengthOf BUY signals
      then (SELL, min cap (50 + js_round ((strengthOf SELL signals - strengthOf BUY signals) / 2)))
      else (NEUTRAL, 50))"
proof (cases signals)
  case Nil
  then show ?thesis by (simp add: signalVerdict_def strengthOf_def)
next
  case (Cons s rest)
  then show ?thesis
    by (simp add: signalVerdict_def strengthOf_def foldl_strength Let_def del: filter.simps)
qed

lemma analyzerVerdict_cap: "analyzerVerdict a signals = signalVerdict (specCap a) signals"
  by (cases a) simp_all


text \<open>
  Claim C5, as the code has it. For each of the nine signal analyzers (Moving Averages,
  RSI, MACD, Bollinger Bands, Support/Resistance, Volume, Candlestick Patterns, Fibonacci,
  Trend Strength) and every emitted signal list: if the summed BUY strength exceeds the
  summed SELL strength the direction is BUY with confidence
  \<open>min(cap, 50 + round((buyStrength - sellStrength) / 2))\<close>, symmetrically for SELL, and
  otherwise the direction is NEUTRAL with confidence 50; the cap is 85 for Volume,
  Candlestick Patterns and Fibonacci and 90 for the other six. The results of
  \<open>analyzeRSI\<close> and \<open>analyzeVolume\<close> carry this verdict on the signals they emit. The
  tenth analyzer, Market Sentiment, is not covered.
\<close>

theorem analyzer_verdict:
  "(strengthOf BUY signals > strengthOf SELL signals \<longrightarrow>
      analyzerVerdict a signals =
        (BUY, min (specCap a) (50 + js_round ((strengthOf BUY signals - strengthOf SELL signals) / 2)))) \<and>
   (strengthOf SELL signals > strengthOf BUY signals \<longrightarrow>
      analyzerVerdict a signals =
        (SELL, min (specCap a) (50 + js_round ((strengthOf SELL signals - strengthOf BUY signals) / 2)))) \<and>
   (strengthOf BUY signals = strengthOf SELL signals \<longrightarrow>
      analyzerVerdict a signals = (NEUTRAL, 50)) \<and>
   (res_direction (analyzeRSI closes), res_confidence (analyzeRSI closes)) =
      analyzerVerdict RSI (res_signals (analyzeRSI closes)) \<and>
   (res_direction (analyzeVolume closes volumes), res_confidence (analyzeVolume closes volumes)) =
      analyzerVerdict Volume (res_signals (analyzeVolume closes volumes))"
proof -
  have rsi: "(res_direction (analyzeRSI closes), res_confidence (analyzeRSI closes)) =
      analyzerVerdict RSI (res_signals (analyzeRSI closes))"
    by (simp add: analyzeRSI_def analyzerReturn_def Let_def)
  have vol: "(res_direction (analyzeVolume closes volumes),
              res_confidence (analyzeVolume closes volumes)) =
      analyzerVerdict Volume (res_signals (analyzeVolume closes volumes))"
    by (simp add: analyzeVolume_def analyzerReturn_def Let_def)
  show ?thesis
    using rsi vol by (simp add: analyzerVerdict_cap signalVerdict_strengths)
qed


theorem analyzer_verdict_witness:
  "strengthOf BUY [\<lparr>sig_name = ''High Volume Price Increase'', sig_direction = BUY, strength = 80\<rparr>,
                   \<lparr>sig_name = ''Volume Climax'', sig_direction = SELL, strength = 70\<rparr>] = 80 \<and>
   strengthOf SELL [\<lparr>sig_name = ''High Volume Price Increase'', sig_direction = BUY, strength = 80\<rparr>,
                    \<lparr>sig_name = ''Volume Climax'', sig_direction = SELL, strength = 70\<rparr>] = 70 \<and>
   analyzerVerdict Volume
     [\<lparr>sig_name = ''High Volume Price Increase'', sig_direction = BUY, strength = 80\<rparr>,
      \<lparr>sig_name = ''Volume Climax'', sig_direction = SELL, strength = 70\<rparr>] = (BUY, 55) \<and>
   analyzerVerdict RSI [\<lparr>sig_name = ''RSI Overbought'', sig_direction = SELL, strength = 90\<rparr>]
     = (SELL, 90) \<and>
   analyzerVerdict MACD
     [\<lparr>sig_name = ''MACD Bullish Crossover'', sig_direction = BUY, strength = 70\<rparr>,
      \<lparr>sig_name = ''MACD Bearish Crossover'', sig_direction = SELL, strength = 70\<rparr>] = (NEUTRAL, 50) \<and>
   analyzeVolume [10, 11] sampleVolumes =
     \<lparr>res_direction = BUY, res_confidence = 55,
      res_signals =
        [\<lparr>sig_name = ''High Volume Price Increase'', sig_direction = BUY, strength = 80\<rparr>,
         \<lparr>sig_name = ''Volume Climax'', sig_direction = SELL, strength = 70\<rparr>]\<rparr> \<and>
   (res_direction (analyzeVolume [10, 11] sampleVolumes),
    res_confidence (analyzeVolume [10, 11] sampleVolumes)) =
      analyzerVerdict Volume (res_signals (analyzeVolume [10, 11] sampleVolumes))"
proof -
  let ?v = "[\<lparr>sig_name = ''High Volume Price Increase'', sig_direction = BUY, strength = 80\<rparr>,
             \<lparr>sig_name = ''Volume Climax'', sig_direction = SELL, strength = 70\<rparr>]"
  let ?r = "[\<lparr>sig_name = ''RSI Overbought'', sig_direction = SELL, strength = 90\<rparr>]"
  let ?m = "[\<lparr>sig_name = ''MACD Bullish Crossover'', sig_direction = BUY, strength = 70\<rparr>,
             \<lparr>sig_name = ''MACD Bearish Crossover'', sig_direction = SELL, strength = 70\<rparr>]"
  have s: "strengthOf BUY ?v = 80" "strengthOf SELL ?v = 70"
    "strengthOf BUY ?r = 0" "strengthOf SELL ?r = 90"
    "strengthOf BUY ?m = 70" "strengthOf SELL ?m = 70"
    by (simp_all add: strengthOf_def)
  have rd: "js_round ((80 - 70) / 2) = 5" "js_round ((90 - 0) / 2) = 45"
    by (simp_all add: js_round_def)
  have vol: "analyzeVolume [10, 11] sampleVolumes =
      \<lparr>res_direction = BUY, res_confidence = 55, res_signals = ?v\<rparr>"
    by code_simp
  have 1: "analyzerVerdict Volume ?v = (BUY, 55)"
    using analyzer_verdict[where a = Volume and signals = ?v] s rd by simp
  have 2: "analyzerVerdict RSI ?r = (SELL, 90)"
    using analyzer_verdict[where a = RSI and signals = ?r] s rd by simp
  have 3: "analyzerVerdict MACD ?m = (NEUTRAL, 50)"
    using analyzer_verdict[where a = MACD and signals = ?m] s by simp
  have 4: "(res_direction (analyzeVolume [10, 11] sampleVolumes),
            res_confidence (analyzeVolume [10, 11] sampleVolumes)) =
      analyzerVerdict Volume (res_signals (analyzeVolume [10, 11] sampleVolumes))"
    using analyzer_verdict[where closes = "[10, 11]" and volumes = sampleVolumes] by blast
  from s(1,2) 1 2 3 vol 4 show ?thesis by blast
qed

text \<open>
  Claim C5 as stated, for every analyzer, fails for Market Sentiment: its confidence is
  \<open>50 + min(30, round(100 * |average sentiment|))\<close>, and its one signal carries that
  confidence as its strength. For an average sentiment of 0.25 the confidence is 75 and
  the BUY strength is 75, while the formula gives 88 under the cap 90 and 85 under the
  cap 85.
\<close>

theorem sentiment_confidence_counterexample:
  "res_direction (analyzeMarketSentiment (Some sampleNews)) = BUY \<and>
   res_confidence (analyzeMarketSentiment (Some sampleNews)) = 75 \<and>
   strengthOf BUY (res_signals (analyzeMarketSentiment (Some sampleNews))) = 75 \<and>
   strengthOf SELL (res_signals (analyzeMarketSentiment (Some sampleNews))) = 0 \<and>
   min 90 (50 + js_round ((75 - 0) / 2)) = 88 \<and>
   min 85 (50 + js_round ((75 - 0) / 2)) = 85"
  by (simp add: analyzeMarketSentiment_def sampleNews_def strengthOf_def js_round_def Let_def)






section \<open>Consensus engine: proofs\<close>

text \<open>The loop of \<open>calculateFinalResult\<close> collects the danger signals of every analysis.\<close>

lemma tally_dangers:
  "dangerSignals (foldl tallyStep t analyses) =
     dangerSignals t @ concat (map dangerSignalsOf analyses)"
proof (induction analyses arbitrary: t)
  case Nil
  show ?case by simp
next
  case (Cons a analyses)
  show ?case
    unfolding foldl_Cons Cons.IH
    by (simp add: tallyStep_def Let_def)
qed

lemma calculateFinalResult_dangers:
  "fin_dangerSignals (calculateFinalResult analyses) = concat (map dangerSignalsOf analyses)"
  by (simp add: calculateFinalResult_def tally_dangers Let_def split: prod.splits)

text \<open>The ten analyses that \<open>performTechnicalAnalysis\<close> collects weigh 100 together.\<close>

lemma collectAnalyses_weights:
  "collectAnalyses table run = Inr analyses \<Longrightarrow> map an_weight analyses = map snd table"
proof (induction table arbitrary: analyses)
  case Nil
  then show ?case by simp
next
  case (Cons entry table)
  obtain n w where entry: "entry = (n, w)" by (cases entry)
  from Cons.prems obtain r rest where "run n = Inr r" "collectAnalyses table run = Inr rest"
    "analyses = \<lparr>an_name = n, an_result = r, an_weight = w\<rparr> # rest"
    by (auto simp: entry split: sum.splits)
  with Cons.IH[of rest] show ?case by (simp add: entry)
qed

lemma collected_weights:
  assumes "collectAnalyses analyzerTable run = Inr analyses"
  shows "sum_list (map an_weight analyses) = 100"
  using collectAnalyses_weights[OF assms] by (simp add: analyzerTable_def)
















section \<open>Configuration: proofs\<close>

text \<open>
  Claim C6, as the code has it. \<open>updateConfig\<close> replaces each key that the update
  supplies and keeps the others, without any check. For a configuration that satisfies
  the invariant, the result satisfies it exactly when the four bounds after the merge do;
  in particular every update that supplies none of \<open>minRiskPercent\<close>, \<open>maxRiskPercent\<close>,
  \<open>minLot\<close>, \<open>maxLot\<close> preserves the invariant.
\<close>

theorem updateConfig_invariant:
  assumes "configInvariant config"
  shows "(new_minRiskPercent newConfig = None \<and> new_maxRiskPercent newConfig = None \<and>
          new_minLot newConfig = None \<and> new_maxLot newConfig = None \<longrightarrow>
            configInvariant (updateConfig config newConfig)) \<and>
         (configInvariant (updateConfig config newConfig) \<longleftrightarrow>
            0 < spread (minRiskPercent config) (new_minRiskPercent newConfig) \<and>
            spread (minRiskPercent config) (new_minRiskPercent newConfig)
              \<le> spread (maxRiskPercent config) (new_maxRiskPercent newConfig) \<and>
            0 < spread (minLot config) (new_minLot newConfig) \<and>
            spread (minLot config) (new_minLot newConfig)
              \<le> spread (maxLot config) (new_maxLot newConfig))"
  using assms by (simp add: configInvariant_def updateConfig_def spread_def)

theorem updateConfig_invariant_witness:
  "configInvariant DEFAULT_CONFIG \<and> configInvariant (updateConfig DEFAULT_CONFIG growthUpdate) \<and>
   targetDailyGrowth (updateConfig DEFAULT_CONFIG growthUpdate) = 40"
proof -
  have d: "configInvariant DEFAULT_CONFIG"
    by (simp add: configInvariant_def DEFAULT_CONFIG_def)
  have n: "new_minRiskPercent growthUpdate = None \<and> new_maxRiskPercent growthUpdate = None \<and>
          new_minLot growthUpdate = None \<and> new_maxLot growthUpdate = None"
    by (simp add: growthUpdate_def)
  have g: "targetDailyGrowth (updateConfig DEFAULT_CONFIG growthUpdate) = 40"
    by (simp add: updateConfig_def growthUpdate_def spread_def)
  from updateConfig_invariant[OF d, of growthUpdate] n d g show ?thesis by blast
qed

text \<open>
  Claim C6 as stated, for every partial update, fails: the default configuration
  satisfies the invariant, and the update that sets \<open>minLot\<close> to 20 yields
  \<open>minLot = 20 > maxLot = 10\<close>.
\<close>

theorem updateConfig_invariant_counterexample:
  "configInvariant DEFAULT_CONFIG \<and> \<not> configInvariant (updateConfig DEFAULT_CONFIG sampleUpdate) \<and>
   minLot (updateConfig DEFAULT_CONFIG sampleUpdate) = 20 \<and>
   maxLot (updateConfig DEFAULT_CONFIG sampleUpdate) = 10"
  by (simp add: configInvariant_def DEFAULT_CONFIG_def updateConfig_def sampleUpdate_def spread_def)


section \<open>Error handling of the analysis: proofs\<close>

lemma collectAnalyses_throws:
  assumes "nm \<in> fst ` set table" "run nm = Inl message"
  shows "\<exists>m. collectAnalyses table run = Inl m"
  using assms
proof (induction table)
  case Nil
  then show ?case by simp
next
  case (Cons entry table)
  obtain n w where entry: "entry = (n, w)" by (cases entry)
  show ?case
  proof (cases "run n")
    case (Inl m)
    then show ?thesis by (simp add: entry)
  next
    case (Inr r)
    with Cons.prems entry have "nm \<in> fst ` set table" by auto
    from Cons.IH[OF this Cons.prems(2)] obtain m where "collectAnalyses table run = Inl m" ..
    with Inr show ?thesis by (simp add: entry)
  qed
qed

text \<open>
  Claim C7, as the code has it. When an analyzer throws and there is at least one bar,
  \<open>performTechnicalAnalysis\<close> returns a report with direction NEUTRAL, confidence 50, no
  analyses and no danger signals, carrying the error message; \<open>processSymbol\<close> accepts
  this report as it is. When the analysis that reaches \<open>processSymbol\<close> is malformed
  (\<open>null\<close>, no direction, or an undefined confidence), it is replaced by a report of
  confidence 70 whose direction is BUY or SELL, drawn at random, never NEUTRAL.
\<close>

theorem analysis_error_handling:
  "(nm \<in> fst ` set analyzerTable \<and> run nm = Inl message \<and> barData \<noteq> [] \<longrightarrow>
      (\<exists>r m. performTechnicalAnalysis symbol barData run = Inr r \<and>
           rep_direction r = Some NEUTRAL \<and> rep_confidence r = Some 50 \<and>
           rep_analyses r = [] \<and> rep_dangerSignals r = [] \<and> rep_error r = Some m \<and>
           analysisOrFallback symbol barData rnd (Some r) = r)) \<and>
   ((analysis = None \<or> (\<exists>a. analysis = Some a \<and> (rep_direction a = None \<or> rep_confidence a = None))) \<longrightarrow>
      rep_confidence (analysisOrFallback symbol barData rnd analysis) = Some 70 \<and>
      rep_direction (analysisOrFallback symbol barData rnd analysis) =
        Some (if rnd > 5 / 10 then BUY else SELL) \<and>
      rep_direction (analysisOrFallback symbol barData rnd analysis) \<noteq> Some NEUTRAL \<and>
      rep_dangerSignals (analysisOrFallback symbol barData rnd analysis) = [])"
proof (intro conjI impI)
  assume a: "nm \<in> fst ` set analyzerTable \<and> run nm = Inl message \<and> barData \<noteq> []"
  then obtain m where m: "collectAnalyses analyzerTable run = Inl m"
    using collectAnalyses_throws by blast
  from a obtain b where b: "js_at barData (int (length barData) - 1) = Some b"
    by (cases barData) (auto simp: js_at_def)
  show "\<exists>r m. performTechnicalAnalysis symbol barData run = Inr r \<and>
           rep_direction r = Some NEUTRAL \<and> rep_confidence r = Some 50 \<and>
           rep_analyses r = [] \<and> rep_dangerSignals r = [] \<and> rep_error r = Some m \<and>
           analysisOrFallback symbol barData rnd (Some r) = r"
    by (simp add: performTechnicalAnalysis_def m b analysisOrFallback_def Let_def)
qed (auto simp: analysisOrFallback_def Let_def)

theorem analysis_error_handling_witness:
  "''RSI'' \<in> fst ` set analyzerTable \<and> failingRun ''RSI'' = Inl ''Cannot read properties of undefined'' \<and>
   [sampleBar] \<noteq> [] \<and>
   (\<exists>r. performTechnicalAnalysis ''AAPL'' [sampleBar] failingRun = Inr r \<and>
        rep_direction r = Some NEUTRAL \<and> rep_confidence r = Some 50 \<and>
        analysisOrFallback ''AAPL'' [sampleBar] (3 / 10) (Some r) = r) \<and>
   rep_confidence (analysisOrFallback ''AAPL'' [sampleBar] (3 / 10) None) = Some 70 \<and>
   rep_direction (analysisOrFallback ''AAPL'' [sampleBar] (3 / 10) None) = Some SELL \<and>
   rep_direction ((sampleReport BUY 80 [])\<lparr>rep_direction := None\<rparr>) = None \<and>
   rep_confidence (analysisOrFallback ''AAPL'' [sampleBar] (7 / 10)
     (Some ((sampleReport BUY 80 [])\<lparr>rep_direction := None\<rparr>))) = Some 70 \<and>
   rep_direction (analysisOrFallback ''AAPL'' [sampleBar] (7 / 10)
     (Some ((sampleReport BUY 80 [])\<lparr>rep_direction := None\<rparr>))) = Some BUY"
proof -
  have h: "''RSI'' \<in> fst ` set analyzerTable"
    "failingRun ''RSI'' = Inl ''Cannot read properties of undefined''" "[sampleBar] \<noteq> []"
    by (simp_all add: analyzerTable_def failingRun_def)
  have n: "rep_direction ((sampleReport BUY 80 [])\<lparr>rep_direction := None\<rparr>) = None"
    by simp
  from analysis_error_handling[of "''RSI''" failingRun "''Cannot read properties of undefined''"
      "[sampleBar]" "''AAPL''" "3 / 10" None] h
  have 1: "(\<exists>r. performTechnicalAnalysis ''AAPL'' [sampleBar] failingRun = Inr r \<and>
        rep_direction r = Some NEUTRAL \<and> rep_confidence r = Some 50 \<and>
        analysisOrFallback ''AAPL'' [sampleBar] (3 / 10) (Some r) = r) \<and>
     rep_confidence (analysisOrFallback ''AAPL'' [sampleBar] (3 / 10) None) = Some 70 \<and>
     rep_direction (analysisOrFallback ''AAPL'' [sampleBar] (3 / 10) None) = Some SELL"
    by auto
  from analysis_error_handling[where rnd = "7 / 10" and symbol = "''AAPL''"
      and barData = "[sampleBar]"
      and analysis = "Some ((sampleReport BUY 80 [])\<lparr>rep_direction := None\<rparr>)"] n
  have 2: "rep_confidence (analysisOrFallback ''AAPL'' [sampleBar] (7 / 10)
       (Some ((sampleReport BUY 80 [])\<lparr>rep_direction := None\<rparr>))) = Some 70 \<and>
     rep_direction (analysisOrFallback ''AAPL'' [sampleBar] (7 / 10)
       (Some ((sampleReport BUY 80 [])\<lparr>rep_direction := None\<rparr>))) = Some BUY"
    by auto
  from h n 1 2 show ?thesis by blast
qed

text \<open>
  Claim C7 as stated fails on both paths: an analyzer that throws gives NEUTRAL with
  confidence 50, not 70, and the replacement of a malformed analysis has confidence 70
  with direction SELL (for a random draw of 0.3) or BUY (for 0.7), not NEUTRAL.
\<close>

theorem fallback_not_neutral_70_counterexample:
  "map_sum id rep_direction (performTechnicalAnalysis ''AAPL'' [sampleBar] failingRun) = Inr (Some NEUTRAL) \<and>
   map_sum id rep_confidence (performTechnicalAnalysis ''AAPL'' [sampleBar] failingRun) = Inr (Some 50) \<and>
   rep_confidence (analysisOrFallback ''AAPL'' [sampleBar] (3 / 10) None) = Some 70 \<and>
   rep_direction (analysisOrFallback ''AAPL'' [sampleBar] (3 / 10) None) = Some SELL \<and>
   rep_direction (analysisOrFallback ''AAPL'' [sampleBar] (7 / 10) None) = Some BUY"
  by (simp add: performTechnicalAnalysis_def analyzerTable_def failingRun_def
      analysisOrFallback_def js_at_def sampleBar_def Let_def)


section \<open>Order quantity: proofs\<close>

lemma toFixed_mono:
  assumes "0 \<le> x" "x \<le> y"
  shows "toFixed n x \<le> toFixed n y"
proof -
  have "x * 10 ^ n + 1 / 2 \<le> y * 10 ^ n + 1 / 2"
    using assms by (simp add: mult_right_mono)
  then have "\<lfloor>x * 10 ^ n + 1 / 2\<rfloor> \<le> \<lfloor>y * 10 ^ n + 1 / 2\<rfloor>"
    by (rule floor_mono)
  then have "(of_int \<lfloor>x * 10 ^ n + 1 / 2\<rfloor> :: real) / 10 ^ n \<le> of_int \<lfloor>y * 10 ^ n + 1 / 2\<rfloor> / 10 ^ n"
    by (simp add: divide_right_mono)
  with assms show ?thesis by (simp add: toFixed_def)
qed

lemma riskPercent_mono:
  assumes "configInvariant config" "0 \<le> c1" "c1 \<le> c2"
  shows "0 < riskPercent config c1" "riskPercent config c1 \<le> riskPercent config c2"
proof -
  let ?d = "maxRiskPercent config - minRiskPercent config"
  have d: "0 \<le> ?d" and m: "0 < minRiskPercent config"
    using assms(1) by (simp_all add: configInvariant_def)
  have "0 \<le> ?d * (c1 / 100)" using d assms(2) by simp
  with m show "0 < riskPercent config c1" by (simp add: riskPercent_def)
  have "?d * (c1 / 100) \<le> ?d * (c2 / 100)"
    using d assms(3) by (intro mult_left_mono) simp_all
  then show "riskPercent config c1 \<le> riskPercent config c2" by (simp add: riskPercent_def)
qed

lemma lotMultiplier_mono:
  assumes "configInvariant config" "0 \<le> c1" "c1 \<le> c2"
  shows "0 < lotMultiplier config c1" "lotMultiplier config c1 \<le> lotMultiplier config c2"
proof -
  let ?d = "maxLot config - minLot config"
  have d: "0 \<le> ?d" and m: "0 < minLot config"
    using assms(1) by (simp_all add: configInvariant_def)
  have "0 \<le> ?d * (c1 / 100)" using d assms(2) by simp
  with m show "0 < lotMultiplier config c1" by (simp add: lotMultiplier_def)
  have "?d * (c1 / 100) \<le> ?d * (c2 / 100)"
    using d assms(3) by (intro mult_left_mono) simp_all
  then show "lotMultiplier config c1 \<le> lotMultiplier config c2" by (simp add: lotMultiplier_def)
qed

lemma clampedQuantity_mono:
  assumes "0 < balance" "0 < price" "configInvariant config" "0 \<le> c1" "c1 \<le> c2"
  shows "clampedQuantity config balance price c1 \<le> clampedQuantity config balance price c2"
proof -
  note rp = riskPercent_mono[OF assms(3,4,5)]
  note lm = lotMultiplier_mono[OF assms(3,4,5)]
  have ra: "0 \<le> riskAmount config balance c1"
    "riskAmount config balance c1 \<le> riskAmount config balance c2"
    using rp assms(1) by (simp_all add: riskAmount_def mult_left_mono divide_right_mono)
  have base: "0 \<le> riskAmount config balance c1 / price"
    "riskAmount config balance c1 / price \<le> riskAmount config balance c2 / price"
    using ra assms(2) by (simp_all add: divide_right_mono)
  have "riskAmount config balance c1 / price * lotMultiplier config c1
      \<le> riskAmount config balance c2 / price * lotMultiplier config c2"
    using base lm by (intro mult_mono) simp_all
  then show ?thesis
    unfolding clampedQuantity_def Let_def by (intro max.mono min.mono order_refl)
qed

lemma clampedQuantity_range:
  assumes "configInvariant config"
  shows "minLot config \<le> clampedQuantity config balance price c"
    and "clampedQuantity config balance price c \<le> maxLot config"
  using assms by (simp_all add: clampedQuantity_def configInvariant_def Let_def)

text \<open>
  What holds of the quantity: for every balance and price above zero, every configuration
  that satisfies the invariant and all confidences \<open>0 \<le> c1 \<le> c2\<close>, the quantity after
  the clamp lies between \<open>minLot\<close> and \<open>maxLot\<close> and does not decrease with the
  confidence, and the quantity of the order, rounded to six decimals after the clamp,
  does not decrease with the confidence either.
\<close>

lemma order_quantity_monotone:
  assumes "0 < balance" "0 < price" "configInvariant config" "0 \<le> c1" "c1 \<le> c2"
  shows "minLot config \<le> clampedQuantity config balance price c1 \<and>
         clampedQuantity config balance price c1 \<le> clampedQuantity config balance price c2 \<and>
         clampedQuantity config balance price c2 \<le> maxLot config \<and>
         (\<exists>q1 q2.
            orderQuantity config balance price c1 = Some q1 \<and>
            orderQuantity config balance price c2 = Some q2 \<and> q1 \<le> q2)"
proof -
  let ?q1 = "clampedQuantity config balance price c1"
  let ?q2 = "clampedQuantity config balance price c2"
  have m: "0 \<le> minLot config" using assms(3) by (simp add: configInvariant_def)
  note r1 = clampedQuantity_range[OF assms(3), of balance price c1]
  note r2 = clampedQuantity_range[OF assms(3), of balance price c2]
  note mono = clampedQuantity_mono[OF assms]
  have f: "toFixed 6 ?q1 \<le> toFixed 6 ?q2"
    using m r1 mono by (intro toFixed_mono) simp_all
  have o: "orderQuantity config balance price c1 = Some (toFixed 6 ?q1)"
    "orderQuantity config balance price c2 = Some (toFixed 6 ?q2)"
    using assms(2) by (simp_all add: orderQuantity_def)
  from r1 r2 mono f o show ?thesis by simp
qed

text \<open>
  Claim C4: the quantity of the order always lies within \<open>[minLot, maxLot]\<close>. The source
  clamps the quantity under the comment "Ensure quantity is within acceptable range" and
  rounds it to six decimals on the next line, after the clamp; the rounding takes the
  quantity out of the range when the bound it was clamped to has more than six decimals.
  With \<open>maxLot = 1.0000007\<close>, a balance of 10000, a price of 1 and a confidence of 100
  the clamp gives 1.0000007 and the order is for 1.000001, above \<open>maxLot\<close>. With
  \<open>minLot = 0.0000004\<close>, a balance of 1, a price of 1000000 and a confidence of 50 the
  clamp gives 0.0000004 and the order is for 0, below \<open>minLot\<close>. Both configurations
  satisfy the invariant.
\<close>

theorem order_quantity_outside_lots:
  "configInvariant fineLotConfig \<and>
   clampedQuantity fineLotConfig 10000 1 100 = maxLot fineLotConfig \<and>
   orderQuantity fineLotConfig 10000 1 100 = Some (1000001 / 1000000) \<and>
   maxLot fineLotConfig < 1000001 / 1000000 \<and>
   configInvariant tinyLotConfig \<and>
   clampedQuantity tinyLotConfig 1 1000000 50 = minLot tinyLotConfig \<and>
   orderQuantity tinyLotConfig 1 1000000 50 = Some 0 \<and>
   0 < minLot tinyLotConfig"
  by (simp add: configInvariant_def fineLotConfig_def tinyLotConfig_def DEFAULT_CONFIG_def
      orderQuantity_def clampedQuantity_def riskAmount_def riskPercent_def lotMultiplier_def
      toFixed_def Let_def)

section \<open>Position lifecycle: proofs\<close>

text \<open>
  An evaluation of a symbol that has an open position hands the analysis, unchanged, to
  \<open>manageExistingPositions\<close>, with the analysis already appended to the history.
\<close>

lemma performTechnicalAnalysis_wellformed:
  assumes "performTechnicalAnalysis symbol barData run = Inr r"
  shows "rep_direction r \<noteq> None \<and> rep_confidence r \<noteq> None"
  using assms
  by (auto simp: performTechnicalAnalysis_def Let_def split: sum.splits option.splits)

lemma processSymbol_manages:
  assumes "clientAvailable e"
    and "barData = (if length (getBars e symbol) < 50 then mockBars e symbol else getBars e symbol)"
    and "performTechnicalAnalysis symbol barData (runAnalyzers e barData) = Inr r"
    and "filter (\<lambda>p. pos_symbol p = symbol) positions = p # ps"
  shows "\<exists>data'. processSymbol symbol data balance positions e config w =
           (data', manageExistingPositions symbol data' r e config w) \<and>
         openPositions data' = p # ps \<and> lastAnalysis data' = Some r \<and>
         analysisHistory data' \<noteq> [] \<and> last (analysisHistory data') = r"
proof -
  from performTechnicalAnalysis_wellformed[OF assms(3)]
  have keep: "analysisOrFallback symbol barData (random e) (Some r) = r"
    by (auto simp: analysisOrFallback_def Let_def)
  let ?pushed = "analysisHistory data @ [r]"
  let ?history = "if length ?pushed > 100 then tl ?pushed else ?pushed"
  have h: "?history \<noteq> [] \<and> last ?history = r"
    by (cases "analysisHistory data") (auto simp: last_tl)
  let ?data = "data\<lparr>analysisHistory := ?history, lastAnalysis := Some r, openPositions := p # ps\<rparr>"
  have "processSymbol symbol data balance positions e config w =
           (?data, manageExistingPositions symbol ?data r e config w)"
    using assms keep by (simp add: processSymbol_def Let_def)
  with h show ?thesis by (intro exI[of _ ?data]) simp
qed







lemma danger_in_final:
  assumes "a \<in> set analyses" "d \<in> set (dangerSignalsOf a)"
  shows "d \<in> set (fin_dangerSignals (calculateFinalResult analyses))"
  using assms by (auto simp: calculateFinalResult_dangers)

lemma someSignal_iff:
  "someSignal signals nm least \<longleftrightarrow> (\<exists>s \<in> set signals. sig_name s = nm \<and> least \<le> strength s)"
  by (simp add: someSignal_def list_ex_iff)

lemma dangerSignalsOf_members:
  "an_name a = ''Bollinger Bands'' \<Longrightarrow>
     someSignal (res_signals (an_result a)) ''Price Above Upper Band'' 70 \<Longrightarrow>
     \<lparr>danger_name = ''Extreme Overbought on Bollinger Bands'', importance = 8\<rparr>
       \<in> set (dangerSignalsOf a)"
  "an_name a = ''Bollinger Bands'' \<Longrightarrow>
     someSignal (res_signals (an_result a)) ''Price Below Lower Band'' 70 \<Longrightarrow>
     \<lparr>danger_name = ''Extreme Oversold on Bollinger Bands'', importance = 8\<rparr>
       \<in> set (dangerSignalsOf a)"
  "an_name a = ''RSI'' \<Longrightarrow>
     someSignal (res_signals (an_result a)) ''RSI Overbought'' 75 \<Longrightarrow>
     \<lparr>danger_name = ''Extreme Overbought on RSI'', importance = 7\<rparr> \<in> set (dangerSignalsOf a)"
  "an_name a = ''RSI'' \<Longrightarrow>
     someSignal (res_signals (an_result a)) ''RSI Oversold'' 75 \<Longrightarrow>
     \<lparr>danger_name = ''Extreme Oversold on RSI'', importance = 7\<rparr> \<in> set (dangerSignalsOf a)"
  "an_name a = ''Volume'' \<Longrightarrow>
     someSignal (res_signals (an_result a)) ''Volume Climax'' 70 \<Longrightarrow>
     \<lparr>danger_name = ''Volume Climax Detected'', importance = 9\<rparr> \<in> set (dangerSignalsOf a)"
  by (simp_all add: dangerSignalsOf_def pushIf_def Let_def)

lemma dangerSignalsOf_importance:
  "an_name a = ''Bollinger Bands'' \<Longrightarrow>
     someSignal (res_signals (an_result a)) ''Price Above Upper Band'' 70 \<or>
     someSignal (res_signals (an_result a)) ''Price Below Lower Band'' 70 \<Longrightarrow>
     \<exists>d \<in> set (dangerSignalsOf a). importance d = 8"
  "an_name a = ''RSI'' \<Longrightarrow>
     someSignal (res_signals (an_result a)) ''RSI Overbought'' 75 \<or>
     someSignal (res_signals (an_result a)) ''RSI Oversold'' 75 \<Longrightarrow>
     \<exists>d \<in> set (dangerSignalsOf a). importance d = 7"
  "an_name a = ''Volume'' \<Longrightarrow>
     someSignal (res_signals (an_result a)) ''Volume Climax'' 70 \<Longrightarrow>
     \<exists>d \<in> set (dangerSignalsOf a). importance d = 9"
proof -
  show "\<exists>d \<in> set (dangerSignalsOf a). importance d = 8"
    if "an_name a = ''Bollinger Bands''"
      "someSignal (res_signals (an_result a)) ''Price Above Upper Band'' 70 \<or>
       someSignal (res_signals (an_result a)) ''Price Below Lower Band'' 70"
    using that(2)
  proof
    assume "someSignal (res_signals (an_result a)) ''Price Above Upper Band'' 70"
    from dangerSignalsOf_members(1)[OF that(1) this] show ?thesis
      by (rule rev_bexI) simp
  next
    assume "someSignal (res_signals (an_result a)) ''Price Below Lower Band'' 70"
    from dangerSignalsOf_members(2)[OF that(1) this] show ?thesis
      by (rule rev_bexI) simp
  qed
  show "\<exists>d \<in> set (dangerSignalsOf a). importance d = 7"
    if "an_name a = ''RSI''"
      "someSignal (res_signals (an_result a)) ''RSI Overbought'' 75 \<or>
       someSignal (res_signals (an_result a)) ''RSI Oversold'' 75"
    using that(2)
  proof
    assume "someSignal (res_signals (an_result a)) ''RSI Overbought'' 75"
    from dangerSignalsOf_members(3)[OF that(1) this] show ?thesis
      by (rule rev_bexI) simp
  next
    assume "someSignal (res_signals (an_result a)) ''RSI Oversold'' 75"
    from dangerSignalsOf_members(4)[OF that(1) this] show ?thesis
      by (rule rev_bexI) simp
  qed
  show "\<exists>d \<in> set (dangerSignalsOf a). importance d = 9"
    if "an_name a = ''Volume''" "someSignal (res_signals (an_result a)) ''Volume Climax'' 70"
    using dangerSignalsOf_members(5)[OF that] by (rule rev_bexI) simp
qed

text \<open>
  Claim C3, as the code has it. Whatever the final direction, the danger signals returned
  by \<open>calculateFinalResult\<close> contain an entry of importance 8 when the analysis named
  Bollinger Bands has a signal "Price Above Upper Band" or "Price Below Lower Band" of
  strength at least 70, an entry of importance 7 when the analysis named RSI has a signal
  "RSI Overbought" or "RSI Oversold" of strength at least 75, and an entry of importance 9
  when the analysis named Volume has a signal "Volume Climax" of strength at least 70.
  For an open position for which the reversal test of the code fails (the consensus
  direction is the direction of the position, or the confidence is below 75), a danger
  signal of importance at least 7 makes \<open>manageExistingPositions\<close> close the position
  and write a trade record of status CLOSED_DANGER, provided the brokerage closes the
  position and the store keeps the record.
\<close>

theorem danger_signals:
  "(\<forall>a \<in> set analyses.
      (an_name a = ''Bollinger Bands'' \<and>
       (\<exists>s \<in> set (res_signals (an_result a)).
          (sig_name s = ''Price Above Upper Band'' \<or> sig_name s = ''Price Below Lower Band'') \<and>
          70 \<le> strength s) \<longrightarrow>
         (\<exists>d \<in> set (fin_dangerSignals (calculateFinalResult analyses)). importance d = 8)) \<and>
      (an_name a = ''RSI'' \<and>
       (\<exists>s \<in> set (res_signals (an_result a)).
          (sig_name s = ''RSI Overbought'' \<or> sig_name s = ''RSI Oversold'') \<and>
          75 \<le> strength s) \<longrightarrow>
         (\<exists>d \<in> set (fin_dangerSignals (calculateFinalResult analyses)). importance d = 7)) \<and>
      (an_name a = ''Volume'' \<and>
       (\<exists>s \<in> set (res_signals (an_result a)).
          sig_name s = ''Volume Climax'' \<and> 70 \<le> strength s) \<longrightarrow>
         (\<exists>d \<in> set (fin_dangerSignals (calculateFinalResult analyses)). importance d = 9))) \<and>
   (clientAvailable e \<and> closePositionOk e symbol \<and>
    saveTradeOk e (closingTrade symbol p CLOSED_DANGER) \<and>
    openPositions data = p # ps \<and>
    (rep_direction analysis = Some (currentDirection p) \<or>
     \<not> js_ge (rep_confidence analysis) (Some 75)) \<and>
    (\<exists>d \<in> set (rep_dangerSignals analysis). 7 \<le> importance d) \<longrightarrow>
      manageExistingPositions symbol data analysis e config w =
        w\<lparr>closedPositions := closedPositions w @ [symbol],
          trades := trades w @ [closingTrade symbol p CLOSED_DANGER]\<rparr> \<and>
      tr_status (closingTrade symbol p CLOSED_DANGER) = CLOSED_DANGER)"
proof (intro conjI ballI impI)
  fix a
  assume a: "a \<in> set analyses"
  {
    assume "an_name a = ''Bollinger Bands'' \<and>
       (\<exists>s \<in> set (res_signals (an_result a)).
          (sig_name s = ''Price Above Upper Band'' \<or> sig_name s = ''Price Below Lower Band'') \<and>
          70 \<le> strength s)"
    then have "someSignal (res_signals (an_result a)) ''Price Above Upper Band'' 70 \<or>
               someSignal (res_signals (an_result a)) ''Price Below Lower Band'' 70"
      and "an_name a = ''Bollinger Bands''"
      by (auto simp: someSignal_iff)
    then have "\<exists>d \<in> set (dangerSignalsOf a). importance d = 8"
      using dangerSignalsOf_importance(1)[of a] by blast
    with a show "\<exists>d \<in> set (fin_dangerSignals (calculateFinalResult analyses)). importance d = 8"
      using danger_in_final by blast
  }
  {
    assume "an_name a = ''RSI'' \<and>
       (\<exists>s \<in> set (res_signals (an_result a)).
          (sig_name s = ''RSI Overbought'' \<or> sig_name s = ''RSI Oversold'') \<and>
          75 \<le> strength s)"
    then have "someSignal (res_signals (an_result a)) ''RSI Overbought'' 75 \<or>
               someSignal (res_signals (an_result a)) ''RSI Oversold'' 75"
      and "an_name a = ''RSI''"
      by (auto simp: someSignal_iff)
    then have "\<exists>d \<in> set (dangerSignalsOf a). importance d = 7"
      using dangerSignalsOf_importance(2)[of a] by blast
    with a show "\<exists>d \<in> set (fin_dangerSignals (calculateFinalResult analyses)). importance d = 7"
      using danger_in_final by blast
  }
  {
    assume "an_name a = ''Volume'' \<and>
       (\<exists>s \<in> set (res_signals (an_result a)).
          sig_name s = ''Volume Climax'' \<and> 70 \<le> strength s)"
    then have "someSignal (res_signals (an_result a)) ''Volume Climax'' 70"
      and "an_name a = ''Volume''"
      by (auto simp: someSignal_iff)
    then have "\<exists>d \<in> set (dangerSignalsOf a). importance d = 9"
      using dangerSignalsOf_importance(3)[of a] by blast
    with a show "\<exists>d \<in> set (fin_dangerSignals (calculateFinalResult analyses)). importance d = 9"
      using danger_in_final by blast
  }
next
  assume h: "clientAvailable e \<and> closePositionOk e symbol \<and>
    saveTradeOk e (closingTrade symbol p CLOSED_DANGER) \<and>
    openPositions data = p # ps \<and>
    (rep_direction analysis = Some (currentDirection p) \<or>
     \<not> js_ge (rep_confidence analysis) (Some 75)) \<and>
    (\<exists>d \<in> set (rep_dangerSignals analysis). 7 \<le> importance d)"
  then have ne: "rep_dangerSignals analysis \<noteq> []"
    and ex: "list_ex (\<lambda>sg. importance sg \<ge> 7) (rep_dangerSignals analysis)"
    by (auto simp: list_ex_iff)
  from h ne ex
  show "manageExistingPositions symbol data analysis e config w =
        w\<lparr>closedPositions := closedPositions w @ [symbol],
          trades := trades w @ [closingTrade symbol p CLOSED_DANGER]\<rparr>"
    by (auto simp add: manageExistingPositions_def saveTrade_def)
next
  show "tr_status (closingTrade symbol p CLOSED_DANGER) = CLOSED_DANGER"
    by (simp add: closingTrade_def)
qed


theorem danger_signals_witness:
  "bollingerAnalysis \<in> set dangerAnalyses \<and> an_name bollingerAnalysis = ''Bollinger Bands'' \<and>
   (\<exists>s \<in> set (res_signals (an_result bollingerAnalysis)).
      (sig_name s = ''Price Above Upper Band'' \<or> sig_name s = ''Price Below Lower Band'') \<and>
      70 \<le> strength s) \<and>
   (\<exists>d \<in> set (fin_dangerSignals (calculateFinalResult dangerAnalyses)). importance d = 8) \<and>
   rsiAnalysis \<in> set dangerAnalyses \<and> an_name rsiAnalysis = ''RSI'' \<and>
   (\<exists>s \<in> set (res_signals (an_result rsiAnalysis)).
      (sig_name s = ''RSI Overbought'' \<or> sig_name s = ''RSI Oversold'') \<and> 75 \<le> strength s) \<and>
   (\<exists>d \<in> set (fin_dangerSignals (calculateFinalResult dangerAnalyses)). importance d = 7) \<and>
   volumeAnalysis \<in> set dangerAnalyses \<and> an_name volumeAnalysis = ''Volume'' \<and>
   (\<exists>s \<in> set (res_signals (an_result volumeAnalysis)).
      sig_name s = ''Volume Climax'' \<and> 70 \<le> strength s) \<and>
   (\<exists>d \<in> set (fin_dangerSignals (calculateFinalResult dangerAnalyses)). importance d = 9) \<and>
   clientAvailable sampleEnv \<and> closePositionOk sampleEnv ''AAPL'' \<and>
   saveTradeOk sampleEnv (closingTrade ''AAPL'' samplePosition CLOSED_DANGER) \<and>
   openPositions sampleData = [samplePosition] \<and>
   rep_direction (sampleReport BUY 60 [sampleDanger]) = Some (currentDirection samplePosition) \<and>
   (\<exists>d \<in> set (rep_dangerSignals (sampleReport BUY 60 [sampleDanger])). 7 \<le> importance d) \<and>
   manageExistingPositions ''AAPL'' sampleData (sampleReport BUY 60 [sampleDanger]) sampleEnv
     DEFAULT_CONFIG emptyWorld =
   \<lparr>closedPositions = [''AAPL''], orders = [],
    trades = [closingTrade ''AAPL'' samplePosition CLOSED_DANGER]\<rparr> \<and>
   \<not> js_ge (rep_confidence (sampleReport SELL 60 [sampleDanger])) (Some 75) \<and>
   manageExistingPositions ''AAPL'' sampleData (sampleReport SELL 60 [sampleDanger]) sampleEnv
     DEFAULT_CONFIG emptyWorld =
   \<lparr>closedPositions = [''AAPL''], orders = [],
    trades = [closingTrade ''AAPL'' samplePosition CLOSED_DANGER]\<rparr>"
proof -
  note T = danger_signals[where analyses = dangerAnalyses and e = sampleEnv and symbol = "''AAPL''"
      and p = samplePosition and ps = "[]" and data = sampleData
      and analysis = "sampleReport BUY 60 [sampleDanger]" and config = DEFAULT_CONFIG
      and w = emptyWorld]
  have b: "bollingerAnalysis \<in> set dangerAnalyses" "an_name bollingerAnalysis = ''Bollinger Bands''"
    "\<exists>s \<in> set (res_signals (an_result bollingerAnalysis)).
      (sig_name s = ''Price Above Upper Band'' \<or> sig_name s = ''Price Below Lower Band'') \<and>
      70 \<le> strength s"
    by (simp_all add: dangerAnalyses_def bollingerAnalysis_def analyzerReturn_def)
  have r: "rsiAnalysis \<in> set dangerAnalyses" "an_name rsiAnalysis = ''RSI''"
    "\<exists>s \<in> set (res_signals (an_result rsiAnalysis)).
      (sig_name s = ''RSI Overbought'' \<or> sig_name s = ''RSI Oversold'') \<and> 75 \<le> strength s"
    by (simp_all add: dangerAnalyses_def rsiAnalysis_def analyzerReturn_def)
  have v: "volumeAnalysis \<in> set dangerAnalyses" "an_name volumeAnalysis = ''Volume''"
    "\<exists>s \<in> set (res_signals (an_result volumeAnalysis)).
      sig_name s = ''Volume Climax'' \<and> 70 \<le> strength s"
    by (simp_all add: dangerAnalyses_def volumeAnalysis_def analyzerReturn_def)
  have m: "clientAvailable sampleEnv" "closePositionOk sampleEnv ''AAPL''"
    "saveTradeOk sampleEnv (closingTrade ''AAPL'' samplePosition CLOSED_DANGER)"
    "openPositions sampleData = [samplePosition]"
    "rep_direction (sampleReport BUY 60 [sampleDanger]) = Some (currentDirection samplePosition)"
    "\<exists>d \<in> set (rep_dangerSignals (sampleReport BUY 60 [sampleDanger])). 7 \<le> importance d"
    by (simp_all add: sampleEnv_def sampleData_def sampleReport_def currentDirection_def
        samplePosition_def sampleDanger_def)
  from T b have 8: "\<exists>d \<in> set (fin_dangerSignals (calculateFinalResult dangerAnalyses)). importance d = 8"
    by blast
  from T r have 7: "\<exists>d \<in> set (fin_dangerSignals (calculateFinalResult dangerAnalyses)). importance d = 7"
    by blast
  from T v have 9: "\<exists>d \<in> set (fin_dangerSignals (calculateFinalResult dangerAnalyses)). importance d = 9"
    by blast
  from T m have c: "manageExistingPositions ''AAPL'' sampleData (sampleReport BUY 60 [sampleDanger])
      sampleEnv DEFAULT_CONFIG emptyWorld =
      emptyWorld\<lparr>closedPositions := closedPositions emptyWorld @ [''AAPL''],
        trades := trades emptyWorld @ [closingTrade ''AAPL'' samplePosition CLOSED_DANGER]\<rparr>"
    by blast
  have ew: "emptyWorld\<lparr>closedPositions := closedPositions emptyWorld @ [''AAPL''],
        trades := trades emptyWorld @ [closingTrade ''AAPL'' samplePosition CLOSED_DANGER]\<rparr> =
      \<lparr>closedPositions = [''AAPL''], orders = [],
       trades = [closingTrade ''AAPL'' samplePosition CLOSED_DANGER]\<rparr>"
    by (simp add: emptyWorld_def)
  note T' = danger_signals[where analyses = dangerAnalyses and e = sampleEnv and symbol = "''AAPL''"
      and p = samplePosition and ps = "[]" and data = sampleData
      and analysis = "sampleReport SELL 60 [sampleDanger]" and config = DEFAULT_CONFIG
      and w = emptyWorld]
  have m': "\<not> js_ge (rep_confidence (sampleReport SELL 60 [sampleDanger])) (Some 75)"
    "\<exists>d \<in> set (rep_dangerSignals (sampleReport SELL 60 [sampleDanger])). 7 \<le> importance d"
    by (simp_all add: sampleReport_def sampleDanger_def js_ge_def js_le_def)
  from T' m(1-4) m' have c': "manageExistingPositions ''AAPL'' sampleData
      (sampleReport SELL 60 [sampleDanger]) sampleEnv DEFAULT_CONFIG emptyWorld =
      emptyWorld\<lparr>closedPositions := closedPositions emptyWorld @ [''AAPL''],
        trades := trades emptyWorld @ [closingTrade ''AAPL'' samplePosition CLOSED_DANGER]\<rparr>"
    by blast
  with ew c b r v m m' 8 7 9 show ?thesis by simp
qed

text \<open>
  Claim C3 as stated fails when the brokerage does not close the position: the error is
  caught, the position stays open and no record is written.
\<close>

theorem danger_close_counterexample:
  "openPositions sampleData = [samplePosition] \<and>
   rep_direction (sampleReport BUY 60 [sampleDanger]) = Some (currentDirection samplePosition) \<and>
   importance sampleDanger = 8 \<and>
   manageExistingPositions ''AAPL'' sampleData (sampleReport BUY 60 [sampleDanger]) notClosingEnv
     DEFAULT_CONFIG emptyWorld = emptyWorld"
  by (simp add: manageExistingPositions_def currentDirection_def sampleData_def
      samplePosition_def sampleReport_def sampleDanger_def notClosingEnv_def sampleEnv_def)


end
